theory Spec2Isabelle
  imports Main "HOL-Library.List_Lexorder" "HOL-Library.Multiset"
begin

section \<open>Data model (database/models/models.py)\<close>

text \<open>
  Every ORM class is a record of its columns. Primary keys and foreign keys are Python
  integers; a column declared \<open>nullable=True\<close> is an option. A timestamp is an integer
  (microseconds); only \<open>Tweets.created_at\<close> is read by the code, so the other tables
  leave their \<open>created_at\<close> column out.
\<close>

record Users =
  u_id :: int
  u_name :: "string option"
  u_api_key :: "string option"

record Tweets =
  t_id :: int
  t_user_id :: "int option"
  t_content :: "string option"
  t_created_at :: int

record Media =
  m_id :: int
  m_file_path :: "string option"
  m_user_id :: int

record TweetMedia =
  tm_id :: int
  tm_tweet_id :: int
  tm_media_id :: int

record Like =
  l_id :: int
  l_tweet_id :: int
  l_user_id :: int

record Follower =
  f_id :: int
  f_follower_id :: int
  f_followee_id :: int

text \<open>
  The exceptions the modelled code can raise. \<open>HTTPException\<close> carries the status code
  and the detail; \<open>FileNotFoundError\<close> carries its message, which tells the explicit
  guard of \<open>del_tweet\<close> from the error \<open>os.remove\<close> raises by itself.
\<close>

datatype error =
    HTTPException int string
  | IntegrityError
  | MultipleResultsFound
  | DBAPIError
  | FileNotFoundError string
  | TypeError
  | AttributeError

text \<open>One entry per call that reaches the store or the file system, in call order.\<close>

datatype store_call =
    Users_get_by_id
  | Followers_add | Followers_delete | Followers_get_subscribe | Followers_filter
  | Tweets_get_by_id | Tweets_add | Tweets_delete | Tweets_filter
  | Media_add | Media_delete | Media_filter
  | TweetMedia_add_all | TweetMedia_filter
  | Likes_add | Likes_delete | Likes_filter
  | Os_remove | Os_write

text \<open>
  The state a request works on: the six tables in insertion order, the sequences behind
  the autoincrement keys, the server clock (\<open>func.now()\<close>), the files of the upload
  directory and the log of store calls. Every repository method commits at once, so a
  failing service call keeps the state its earlier calls left.

  SQL leaves open the order of rows that a query's ORDER BY does not tell apart, and it
  may differ from one query to the next. \<open>tie_order\<close> is that choice: a rank for every
  tweet, which may depend on how many calls were made before the query and on the
  LIMIT and OFFSET of the query. No operation changes it, and nothing is assumed of it.
\<close>

record db =
  users :: "Users list"
  tweets :: "Tweets list"
  media :: "Media list"
  tweet_media :: "TweetMedia list"
  likes :: "Like list"
  followers :: "Follower list"
  tweets_seq :: int
  media_seq :: int
  tweet_media_seq :: int
  likes_seq :: int
  followers_seq :: int
  now :: int
  files :: "string list"
  calls :: "store_call list"
  tie_order :: "nat \<Rightarrow> int option \<Rightarrow> int option \<Rightarrow> Tweets \<Rightarrow> int"

record Settings =
  UPL_DIR :: string
  SAVE_PATH :: string

definition log_call :: "store_call \<Rightarrow> db \<Rightarrow> db" where
  "log_call c s = s\<lparr>calls := calls s @ [c]\<rparr>"

text \<open>
  A Python integer is unbounded; the database driver binds a query parameter for an
  Integer column as a 32-bit signed integer and a LIMIT or OFFSET as a 64-bit one, and
  raises when the value does not fit. The sequence behind an Integer key ends at the
  largest 32-bit value. The check is modelled where a value comes from the request body
  or from a sequence (the media lookup, the inserts of a tweet, LIMIT and OFFSET); the
  lookups by key are modelled for keys that fit the column, as the keys of stored rows do.
\<close>

definition int32 :: "int \<Rightarrow> bool" where
  "int32 v = (- 2147483648 \<le> v \<and> v \<le> 2147483647)"

definition int64 :: "int \<Rightarrow> bool" where
  "int64 v = (- 9223372036854775808 \<le> v \<and> v \<le> 9223372036854775807)"

section \<open>Result helpers of the query API\<close>

text \<open>\<open>Result.scalar_one_or_none()\<close>: no row is None, one row is that row, more raise.\<close>

fun scalar_one_or_none :: "'a list \<Rightarrow> error + 'a option" where
  "scalar_one_or_none [] = Inr None"
| "scalar_one_or_none [x] = Inr (Some x)"
| "scalar_one_or_none (x # y # ys) = Inl MultipleResultsFound"

text \<open>\<open>Result.scalars().first()\<close>: the first row or None, never an error.\<close>

fun first :: "'a list \<Rightarrow> 'a option" where
  "first [] = None"
| "first (x # xs) = Some x"

section \<open>Repositories (api/user/repositoryes.py, api/tweet/repositoryes.py)\<close>

text \<open>
  The keyword arguments of a lookup are field-equality pairs, one constructor per
  column, combined by conjunction as the loop over \<open>kwargs.items()\<close> does.
\<close>

datatype follower_kwarg = Follower_id int | Follower_follower_id int | Follower_followee_id int

fun follower_eq :: "follower_kwarg \<Rightarrow> Follower \<Rightarrow> bool" where
  "follower_eq (Follower_id v) r = (f_id r = v)"
| "follower_eq (Follower_follower_id v) r = (f_follower_id r = v)"
| "follower_eq (Follower_followee_id v) r = (f_followee_id r = v)"

datatype like_kwarg = Like_id int | Like_tweet_id int | Like_user_id int

fun like_eq :: "like_kwarg \<Rightarrow> Like \<Rightarrow> bool" where
  "like_eq (Like_id v) r = (l_id r = v)"
| "like_eq (Like_tweet_id v) r = (l_tweet_id r = v)"
| "like_eq (Like_user_id v) r = (l_user_id r = v)"

datatype tweet_media_kwarg = TweetMedia_id int | TweetMedia_tweet_id int | TweetMedia_media_id int

fun tweet_media_eq :: "tweet_media_kwarg \<Rightarrow> TweetMedia \<Rightarrow> bool" where
  "tweet_media_eq (TweetMedia_id v) r = (tm_id r = v)"
| "tweet_media_eq (TweetMedia_tweet_id v) r = (tm_tweet_id r = v)"
| "tweet_media_eq (TweetMedia_media_id v) r = (tm_media_id r = v)"

datatype tweets_kwarg =
  Tweets_id int | Tweets_user_id int | Tweets_content string | Tweets_created_at int

fun tweets_eq :: "tweets_kwarg \<Rightarrow> Tweets \<Rightarrow> bool" where
  "tweets_eq (Tweets_id v) r = (t_id r = v)"
| "tweets_eq (Tweets_user_id v) r = (t_user_id r = Some v)"
| "tweets_eq (Tweets_content v) r = (t_content r = Some v)"
| "tweets_eq (Tweets_created_at v) r = (t_created_at r = v)"

datatype media_kwarg = Media_id int | Media_file_path string | Media_user_id int

fun media_eq :: "media_kwarg \<Rightarrow> Media \<Rightarrow> bool" where
  "media_eq (Media_id v) r = (m_id r = v)"
| "media_eq (Media_file_path v) r = (m_file_path r = Some v)"
| "media_eq (Media_user_id v) r = (m_user_id r = v)"

text \<open>Whether the value of a keyword can be bound as a parameter of its column.\<close>

fun media_kwarg_binds :: "media_kwarg \<Rightarrow> bool" where
  "media_kwarg_binds (Media_id v) = int32 v"
| "media_kwarg_binds (Media_file_path v) = True"
| "media_kwarg_binds (Media_user_id v) = int32 v"

text \<open>The custom filters the services pass: \<open>column.in_(values)\<close> and \<open>column == value\<close>.\<close>

datatype tweets_custom = Tweets_user_id_in "int list"

fun tweets_custom_holds :: "tweets_custom \<Rightarrow> Tweets \<Rightarrow> bool" where
  "tweets_custom_holds (Tweets_user_id_in vs) r =
     (case t_user_id r of None \<Rightarrow> False | Some v \<Rightarrow> v \<in> set vs)"

datatype media_custom = Media_id_in "int list" | Media_user_id_is int

fun media_custom_holds :: "media_custom \<Rightarrow> Media \<Rightarrow> bool" where
  "media_custom_holds (Media_id_in vs) r = (m_id r \<in> set vs)"
| "media_custom_holds (Media_user_id_is v) r = (m_user_id r = v)"

fun media_custom_binds :: "media_custom \<Rightarrow> bool" where
  "media_custom_binds (Media_id_in vs) = list_all int32 vs"
| "media_custom_binds (Media_user_id_is v) = int32 v"

definition select_where :: "('k \<Rightarrow> 'r \<Rightarrow> bool) \<Rightarrow> 'k list \<Rightarrow> 'r list \<Rightarrow> 'r list" where
  "select_where holds kwargs rows = filter (\<lambda>r. \<forall>k \<in> set kwargs. holds k r) rows"

subsection \<open>UserRepository\<close>

definition UserRepository_get_by_id :: "int \<Rightarrow> db \<Rightarrow> (error + Users option) \<times> db" where
  "UserRepository_get_by_id user_id s =
     (scalar_one_or_none (filter (\<lambda>u. u_id u = user_id) (users s)), log_call Users_get_by_id s)"

subsection \<open>FollowerRepository\<close>

text \<open>
  \<open>add\<close> flushes the transient object: the key comes from the sequence, and the commit
  fails on the constraint \<open>unique_follower_followee\<close>, leaving the table as it was.
\<close>

definition FollowerRepository_add :: "Follower \<Rightarrow> db \<Rightarrow> (error + Follower) \<times> db" where
  "FollowerRepository_add follow s =
     (let s1 = log_call Followers_add s in
      if \<exists>r \<in> set (followers s).
           f_follower_id r = f_follower_id follow \<and> f_followee_id r = f_followee_id follow
      then (Inl IntegrityError, s1)
      else let row = follow\<lparr>f_id := followers_seq s\<rparr> in
        (Inr row, s1\<lparr>followers := followers s @ [row], followers_seq := followers_seq s + 1\<rparr>))"

definition FollowerRepository_delete :: "Follower \<Rightarrow> db \<Rightarrow> db" where
  "FollowerRepository_delete follow s =
     (log_call Followers_delete s)\<lparr>followers := filter (\<lambda>r. f_id r \<noteq> f_id follow) (followers s)\<rparr>"

definition FollowerRepository_get_subscribe ::
    "follower_kwarg list \<Rightarrow> db \<Rightarrow> (error + Follower option) \<times> db" where
  "FollowerRepository_get_subscribe kwargs s =
     (scalar_one_or_none (select_where follower_eq kwargs (followers s)),
      log_call Followers_get_subscribe s)"

definition FollowerRepository_filter :: "follower_kwarg list \<Rightarrow> db \<Rightarrow> Follower list \<times> db" where
  "FollowerRepository_filter kwargs s =
     (select_where follower_eq kwargs (followers s), log_call Followers_filter s)"

subsection \<open>LikeRepository\<close>

definition LikeRepository_add :: "Like \<Rightarrow> db \<Rightarrow> (error + Like) \<times> db" where
  "LikeRepository_add like s =
     (let s1 = log_call Likes_add s in
      if \<exists>r \<in> set (likes s). l_tweet_id r = l_tweet_id like \<and> l_user_id r = l_user_id like
      then (Inl IntegrityError, s1)
      else let row = like\<lparr>l_id := likes_seq s\<rparr> in
        (Inr row, s1\<lparr>likes := likes s @ [row], likes_seq := likes_seq s + 1\<rparr>))"

definition LikeRepository_delete :: "Like \<Rightarrow> db \<Rightarrow> db" where
  "LikeRepository_delete like s =
     (log_call Likes_delete s)\<lparr>likes := filter (\<lambda>r. l_id r \<noteq> l_id like) (likes s)\<rparr>"

definition LikeRepository_filter :: "like_kwarg list \<Rightarrow> db \<Rightarrow> (error + Like option) \<times> db" where
  "LikeRepository_filter kwargs s =
     (scalar_one_or_none (select_where like_eq kwargs (likes s)), log_call Likes_filter s)"

subsection \<open>TweetMediaRepository\<close>

text \<open>
  \<open>add_all\<close> commits the whole list in one transaction: it fails as a whole when a pair
  (tweet, media) repeats, in the table or in the list (\<open>unique_tweet_media\<close>).
\<close>

fun number_from :: "int \<Rightarrow> TweetMedia list \<Rightarrow> TweetMedia list" where
  "number_from n [] = []"
| "number_from n (r # rs) = r\<lparr>tm_id := n\<rparr> # number_from (n + 1) rs"

definition tm_pair :: "TweetMedia \<Rightarrow> int \<times> int" where
  "tm_pair r = (tm_tweet_id r, tm_media_id r)"

definition TweetMediaRepository_add_all :: "TweetMedia list \<Rightarrow> db \<Rightarrow> (error + unit) \<times> db" where
  "TweetMediaRepository_add_all rec s =
     (let s1 = log_call TweetMedia_add_all s in
      if list_all (\<lambda>r. int32 (tm_tweet_id r) \<and> int32 (tm_media_id r)) rec
         \<and> list_all int32 (map tm_id (number_from (tweet_media_seq s) rec))
      then
        if distinct (map tm_pair (tweet_media s @ rec))
        then (Inr (), s1\<lparr>tweet_media := tweet_media s @ number_from (tweet_media_seq s) rec,
                         tweet_media_seq := tweet_media_seq s + int (length rec)\<rparr>)
        else (Inl IntegrityError, s1)
      else (Inl DBAPIError, s1))"

definition TweetMediaRepository_filter ::
    "tweet_media_kwarg list \<Rightarrow> db \<Rightarrow> TweetMedia option \<times> db" where
  "TweetMediaRepository_filter kwargs s =
     (first (select_where tweet_media_eq kwargs (tweet_media s)), log_call TweetMedia_filter s)"

subsection \<open>MediaRepository\<close>

definition MediaRepository_add :: "Media \<Rightarrow> db \<Rightarrow> (error + Media) \<times> db" where
  "MediaRepository_add new_media s =
     (let row = new_media\<lparr>m_id := media_seq s\<rparr>; s1 = log_call Media_add s in
      if int32 (media_seq s) \<and> int32 (m_user_id new_media)
      then (Inr row, s1\<lparr>media := media s @ [row], media_seq := media_seq s + 1\<rparr>)
      else (Inl DBAPIError, s1))"

text \<open>
  Deleting a media object cascades to its \<open>tweet_media\<close> relationship
  (\<open>cascade="all, delete"\<close>).
\<close>

definition MediaRepository_delete :: "Media \<Rightarrow> db \<Rightarrow> db" where
  "MediaRepository_delete med s =
     (log_call Media_delete s)
       \<lparr>media := filter (\<lambda>r. m_id r \<noteq> m_id med) (media s),
        tweet_media := filter (\<lambda>r. tm_media_id r \<noteq> m_id med) (tweet_media s)\<rparr>"

text \<open>
  \<open>MediaRepository.filter\<close> returns all matching rows. The query fails in the driver
  when a value of a keyword or of a custom filter does not fit its Integer column.
\<close>

definition MediaRepository_filter ::
    "media_kwarg list \<Rightarrow> media_custom list \<Rightarrow> db \<Rightarrow> (error + Media list) \<times> db" where
  "MediaRepository_filter kwargs custom_filters s =
     (if list_all media_kwarg_binds kwargs \<and> list_all media_custom_binds custom_filters
      then Inr (select_where media_custom_holds custom_filters
                  (select_where media_eq kwargs (media s)))
      else Inl DBAPIError,
      log_call Media_filter s)"

subsection \<open>TweetRepository\<close>

definition TweetRepository_get_by_id :: "int \<Rightarrow> db \<Rightarrow> (error + Tweets option) \<times> db" where
  "TweetRepository_get_by_id tweet_id s =
     (scalar_one_or_none (filter (\<lambda>t. t_id t = tweet_id) (tweets s)), log_call Tweets_get_by_id s)"

definition TweetRepository_add :: "Tweets \<Rightarrow> db \<Rightarrow> (error + Tweets) \<times> db" where
  "TweetRepository_add tweet s =
     (let row = tweet\<lparr>t_id := tweets_seq s, t_created_at := now s\<rparr>;
          s1 = log_call Tweets_add s in
      if int32 (tweets_seq s) \<and> (case t_user_id tweet of None \<Rightarrow> True | Some v \<Rightarrow> int32 v)
      then (Inr row, s1\<lparr>tweets := tweets s @ [row], tweets_seq := tweets_seq s + 1\<rparr>)
      else (Inl DBAPIError, s1))"

text \<open>
  Deleting a tweet cascades to its \<open>media\<close> and \<open>likes\<close> relationships: the TweetMedia
  and Like rows of the tweet go with it, the Media rows stay.
\<close>

definition TweetRepository_delete :: "Tweets \<Rightarrow> db \<Rightarrow> db" where
  "TweetRepository_delete tweet s =
     (log_call Tweets_delete s)
       \<lparr>tweets := filter (\<lambda>r. t_id r \<noteq> t_id tweet) (tweets s),
        tweet_media := filter (\<lambda>r. tm_tweet_id r \<noteq> t_id tweet) (tweet_media s),
        likes := filter (\<lambda>r. l_tweet_id r \<noteq> t_id tweet) (likes s)\<rparr>"

text \<open>
  The hybrid property \<open>Tweets.likes_count\<close> as a query expression: a correlated count
  over the Like rows of the tweet, evaluated when the query runs.
\<close>

definition likes_count :: "db \<Rightarrow> Tweets \<Rightarrow> int" where
  "likes_count s t = int (length (filter (\<lambda>l. l_tweet_id l = t_id t) (likes s)))"

datatype tweets_order = Likes_count_desc | Created_at_desc

fun order_value :: "db \<Rightarrow> tweets_order \<Rightarrow> Tweets \<Rightarrow> int" where
  "order_value s Likes_count_desc t = - likes_count s t"
| "order_value s Created_at_desc t = - t_created_at t"

text \<open>
  \<open>ORDER BY k1, k2, ...\<close> compares the key tuples lexicographically. Rows with equal
  tuples, and all rows of a query without ORDER BY, come in the order \<open>tie_order\<close> gives
  for the query (and in table order where that rank is equal too).
\<close>

definition order_key :: "db \<Rightarrow> tweets_order list \<Rightarrow> Tweets \<Rightarrow> int list" where
  "order_key s order_by t = map (\<lambda>k. order_value s k t) order_by"

text \<open>
  \<open>TweetRepository.filter\<close>: equality filters, custom filters, ordering if any key is
  given, then OFFSET and LIMIT when they are not None. PostgreSQL rejects a negative
  OFFSET or LIMIT, and the driver one that does not fit 64 bits. The outer join with
  Like is grouped by the tweet key, so each tweet is one row. Preload options change no
  row and are not parameters.
\<close>

definition TweetRepository_filter ::
    "tweets_kwarg list \<Rightarrow> tweets_custom list \<Rightarrow> tweets_order list \<Rightarrow> int option \<Rightarrow> int option
       \<Rightarrow> db \<Rightarrow> (error + Tweets list) \<times> db" where
  "TweetRepository_filter kwargs custom_filters order_by limit offset s =
     (let q1 = select_where tweets_eq kwargs (tweets s);
          q2 = select_where tweets_custom_holds custom_filters q1;
          q3 = sort_key
                 (\<lambda>t. (if order_by \<noteq> [] then order_key s order_by t else [])
                      @ [tie_order s (length (calls s)) limit offset t]) q2;
          s1 = log_call Tweets_filter s
      in case offset of
           Some off \<Rightarrow>
             if 0 \<le> off \<and> int64 off
             then (case limit of
                     Some lim \<Rightarrow> if 0 \<le> lim \<and> int64 lim
                                 then (Inr (take (nat lim) (drop (nat off) q3)), s1)
                                 else (Inl DBAPIError, s1)
                   | None \<Rightarrow> (Inr (drop (nat off) q3), s1))
             else (Inl DBAPIError, s1)
         | None \<Rightarrow>
             (case limit of
                Some lim \<Rightarrow> if 0 \<le> lim \<and> int64 lim then (Inr (take (nat lim) q3), s1)
                            else (Inl DBAPIError, s1)
              | None \<Rightarrow> (Inr q3, s1)))"

section \<open>File system (os.path, os.remove)\<close>

text \<open>\<open>os.path.basename\<close>: what follows the last slash.\<close>

definition os_path_basename :: "string \<Rightarrow> string" where
  "os_path_basename p = rev (takeWhile (\<lambda>c. c \<noteq> CHR ''/'') (rev p))"

text \<open>\<open>os.path.join\<close> of two components: an absolute second component replaces the first.\<close>

definition os_path_join :: "string \<Rightarrow> string \<Rightarrow> string" where
  "os_path_join a b =
     (if b \<noteq> [] \<and> hd b = CHR ''/'' then b
      else if a = [] \<or> last a = CHR ''/'' then a @ b
      else a @ ''/'' @ b)"

text \<open>\<open>os.remove\<close> raises FileNotFoundError by itself when the path names no file.\<close>

definition os_remove :: "string \<Rightarrow> db \<Rightarrow> (error + unit) \<times> db" where
  "os_remove path s =
     (let s1 = log_call Os_remove s in
      if path \<in> set (files s) then (Inr (), s1\<lparr>files := removeAll path (files s)\<rparr>)
      else (Inl (FileNotFoundError ''[Errno 2] No such file or directory''), s1))"

section \<open>UserServices (api/user/service.py)\<close>

definition add_subscribe :: "Users \<Rightarrow> int \<Rightarrow> db \<Rightarrow> (error + unit) \<times> db" where
  "add_subscribe user id' s =
     (if id' = u_id user then (Inl (HTTPException 409 ''You can't subscribe to yourself''), s)
      else case UserRepository_get_by_id id' s of
        (Inl e, s1) \<Rightarrow> (Inl e, s1)
      | (Inr requested_user, s1) \<Rightarrow>
          if requested_user = None then (Inl (HTTPException 404 ''User not found''), s1)
          else (case FollowerRepository_add
                       \<lparr>f_id = 0, f_follower_id = u_id user, f_followee_id = id'\<rparr> s1 of
                  (Inl e, s2) \<Rightarrow> (Inl e, s2)
                | (Inr new_subscribe, s2) \<Rightarrow> (Inr (), s2)))"

definition delete_subscribe :: "Users \<Rightarrow> int \<Rightarrow> db \<Rightarrow> (error + unit) \<times> db" where
  "delete_subscribe user id' s =
     (if id' = u_id user then (Inl (HTTPException 409 ''You can't unsubscribe from yourself''), s)
      else case UserRepository_get_by_id id' s of
        (Inl e, s1) \<Rightarrow> (Inl e, s1)
      | (Inr requested_user, s1) \<Rightarrow>
          if requested_user = None then (Inl (HTTPException 404 ''User not found''), s1)
          else (case FollowerRepository_get_subscribe
                       [Follower_follower_id (u_id user), Follower_followee_id id'] s1 of
                  (Inl e, s2) \<Rightarrow> (Inl e, s2)
                | (Inr None, s2) \<Rightarrow>
                    (Inl (HTTPException 404 ''You haven't subscribed to this user yet''), s2)
                | (Inr (Some follow), s2) \<Rightarrow> (Inr (), FollowerRepository_delete follow s2)))"

section \<open>TweetServices (api/tweet/service.py)\<close>

subsection \<open>add_new_tweet\<close>

text \<open>
  The request body \<open>TweetCreate\<close>: the text and an optional list of media identifiers.
  The result dictionary is its \<open>tweet_id\<close>.
\<close>

record TweetCreate =
  tweet_data :: string
  tweet_media_ids :: "int list option"

definition add_new_tweet :: "Users \<Rightarrow> TweetCreate \<Rightarrow> db \<Rightarrow> (error + int) \<times> db" where
  "add_new_tweet user tweet s =
     (let ids = (case tweet_media_ids tweet of None \<Rightarrow> [] | Some xs \<Rightarrow> xs)
      in case (if ids \<noteq> []
               then MediaRepository_filter [] [Media_id_in ids, Media_user_id_is (u_id user)] s
               else (Inr [], s)) of
           (Inl e, s1) \<Rightarrow> (Inl e, s1)
         | (Inr media_files, s1) \<Rightarrow>
             if ids \<noteq> [] \<and> length media_files \<noteq> length ids
             then (Inl (HTTPException 400 ''Some media files not found or inaccessible''), s1)
             else
               (case TweetRepository_add
                       \<lparr>t_id = 0, t_user_id = Some (u_id user),
                        t_content = Some (tweet_data tweet), t_created_at = 0\<rparr> s1 of
                  (Inl e, s2) \<Rightarrow> (Inl e, s2)
                | (Inr new_tweet, s2) \<Rightarrow>
                    if media_files \<noteq> []
                    then (case TweetMediaRepository_add_all
                                 (map (\<lambda>med. \<lparr>tm_id = 0, tm_tweet_id = t_id new_tweet,
                                               tm_media_id = m_id med\<rparr>) media_files) s2 of
                            (Inl e, s3) \<Rightarrow> (Inl e, s3)
                          | (Inr u, s3) \<Rightarrow> (Inr (t_id new_tweet), s3))
                    else (Inr (t_id new_tweet), s2)))"

subsection \<open>add_media_files\<close>

text \<open>
  The upload writes the bytes to \<open>upload_dir/filename\<close> (\<open>UPL_DIR\<close> when no directory
  is given), replacing a file of that name,
  and records \<open>SAVE_PATH + filename\<close>; a missing file name becomes
  \<open>default_file.jpeg\<close>. The result dictionary is its \<open>media_id\<close>.
\<close>

definition add_media_files ::
    "Settings \<Rightarrow> Users \<Rightarrow> string option \<Rightarrow> string option \<Rightarrow> db
       \<Rightarrow> (error + int) \<times> db" where
  "add_media_files settings user filename upload_dir s =
     (let dir = (case upload_dir of None \<Rightarrow> UPL_DIR settings | Some d \<Rightarrow> d);
          name = (case filename of None \<Rightarrow> ''default_file.jpeg'' | Some n \<Rightarrow> n);
          file_path = os_path_join dir name;
          s1 = (log_call Os_write s)\<lparr>files := List.insert file_path (files s)\<rparr>;
          path_to_image = SAVE_PATH settings @ name
      in case MediaRepository_add \<lparr>m_id = 0, m_file_path = Some path_to_image,
                                   m_user_id = u_id user\<rparr> s1 of
           (Inl e, s2) \<Rightarrow> (Inl e, s2)
         | (Inr new_media, s2) \<Rightarrow> (Inr (m_id new_media), s2))"

subsection \<open>del_tweet\<close>

text \<open>
  The relationships the query preloads: \<open>tweet.media\<close> is the list of the tweet's
  TweetMedia rows, each with its \<open>media\<close> object (None when no Media row has the key).
  They are read when the tweet is selected, before anything is deleted.
\<close>

definition Tweets_media :: "db \<Rightarrow> Tweets \<Rightarrow> (TweetMedia \<times> Media option) list" where
  "Tweets_media s tweet =
     map (\<lambda>r. (r, find (\<lambda>m. m_id m = tm_media_id r) (media s)))
         (filter (\<lambda>r. tm_tweet_id r = t_id tweet) (tweet_media s))"

text \<open>
  The loop over \<open>media_files\<close>. The variable \<open>file_path\<close> holds what \<open>os.path.join\<close>
  returned, and the guard compares it with None.
\<close>

fun del_tweet_loop ::
    "Settings \<Rightarrow> (TweetMedia \<times> Media option) list \<Rightarrow> db \<Rightarrow> (error + unit) \<times> db" where
  "del_tweet_loop settings [] s = (Inr (), s)"
| "del_tweet_loop settings ((tm, None) # rest) s = (Inl AttributeError, s)"
| "del_tweet_loop settings ((tm, Some med) # rest) s =
     (case TweetMediaRepository_filter [TweetMedia_media_id (m_id med)] s of
        (Some remaining_link, s1) \<Rightarrow> del_tweet_loop settings rest s1
      | (None, s1) \<Rightarrow>
          (case m_file_path med of
             None \<Rightarrow> (Inl TypeError, s1)
           | Some stored \<Rightarrow>
               let file_name = os_path_basename stored;
                   file_path = Some (os_path_join (UPL_DIR settings) file_name)
               in (case file_path of
                     None \<Rightarrow> (Inl (FileNotFoundError ''File not found''), s1)
                   | Some path \<Rightarrow>
                       (case os_remove path s1 of
                          (Inl e, s2) \<Rightarrow> (Inl e, s2)
                        | (Inr u, s2) \<Rightarrow>
                            del_tweet_loop settings rest (MediaRepository_delete med s2)))))"

definition del_tweet :: "Settings \<Rightarrow> Users \<Rightarrow> int \<Rightarrow> db \<Rightarrow> (error + unit) \<times> db" where
  "del_tweet settings user id' s =
     (case TweetRepository_filter [Tweets_id id', Tweets_user_id (u_id user)] [] [] None None s of
        (Inl e, s1) \<Rightarrow> (Inl e, s1)
      | (Inr [], s1) \<Rightarrow>
          (Inl (HTTPException 404 ''Tweet not found or not owned by the user''), s1)
      | (Inr (tweet # others), s1) \<Rightarrow>
          let media_files = Tweets_media s tweet
          in del_tweet_loop settings media_files (TweetRepository_delete tweet s1))"

subsection \<open>add_like\<close>

definition add_like :: "Users \<Rightarrow> int \<Rightarrow> db \<Rightarrow> (error + unit) \<times> db" where
  "add_like user id' s =
     (case TweetRepository_get_by_id id' s of
        (Inl e, s1) \<Rightarrow> (Inl e, s1)
      | (Inr None, s1) \<Rightarrow> (Inl (HTTPException 404 ''Tweet not found''), s1)
      | (Inr (Some tweet), s1) \<Rightarrow>
          (case LikeRepository_filter [Like_tweet_id id', Like_user_id (u_id user)] s1 of
             (Inl e, s2) \<Rightarrow> (Inl e, s2)
           | (Inr (Some like), s2) \<Rightarrow>
               (Inl (HTTPException 409 ''You can't put more than 1 like''), s2)
           | (Inr None, s2) \<Rightarrow>
               (case LikeRepository_add \<lparr>l_id = 0, l_tweet_id = id', l_user_id = u_id user\<rparr> s2 of
                  (Inl e, s3) \<Rightarrow> (Inl e, s3)
                | (Inr new_like, s3) \<Rightarrow> (Inr (), s3))))"

subsection \<open>get_tweets\<close>

text \<open>
  The first half of \<open>get_tweets\<close>, up to the query: the page arithmetic, the following
  list and the call of \<open>TweetRepository.filter\<close>. Its value is the variable \<open>tweets\<close>.
\<close>

definition following_list :: "Users \<Rightarrow> Follower list \<Rightarrow> int list" where
  "following_list user subscribers =
     (if subscribers = [] then [u_id user]
      else map f_followee_id subscribers @ [u_id user])"

definition get_tweets_query ::
    "Users \<Rightarrow> int option \<Rightarrow> int option \<Rightarrow> db \<Rightarrow> (error + Tweets list) \<times> db" where
  "get_tweets_query user limit offset s =
     (let offset1 = (case (offset, limit) of
                       (Some off, Some lim) \<Rightarrow> Some ((off - 1) * lim)
                     | _ \<Rightarrow> offset);
          (subscribers, s1) = FollowerRepository_filter [Follower_follower_id (u_id user)] s
      in TweetRepository_filter [] [Tweets_user_id_in (following_list user subscribers)]
           [Likes_count_desc, Created_at_desc] limit offset1 s1)"

text \<open>
  The second half: one dictionary per tweet, from the preloaded author, media and likes.
  Reading an attribute of a relationship that loaded as None raises AttributeError.
\<close>

record tweet_dict =
  d_id :: int
  d_content :: "string option"
  d_attachments :: "string option list"
  d_author :: "int \<times> string option"
  d_likes :: "(int \<times> string option) list"

fun collect :: "(error + 'a) list \<Rightarrow> error + 'a list" where
  "collect [] = Inr []"
| "collect (Inl e # xs) = Inl e"
| "collect (Inr x # xs) = (case collect xs of Inl e \<Rightarrow> Inl e | Inr ys \<Rightarrow> Inr (x # ys))"

definition attachment_of :: "db \<Rightarrow> TweetMedia \<Rightarrow> error + string option" where
  "attachment_of s r =
     (case find (\<lambda>m. m_id m = tm_media_id r) (media s) of
        None \<Rightarrow> Inl AttributeError
      | Some med \<Rightarrow> Inr (m_file_path med))"

definition like_entry :: "db \<Rightarrow> Like \<Rightarrow> error + (int \<times> string option)" where
  "like_entry s like =
     (case find (\<lambda>u. u_id u = l_user_id like) (users s) of
        None \<Rightarrow> Inl AttributeError
      | Some usr \<Rightarrow> Inr (l_user_id like, u_name usr))"

definition make_tweet_dict :: "db \<Rightarrow> Tweets \<Rightarrow> error + tweet_dict" where
  "make_tweet_dict s tweet =
     (case collect (map (attachment_of s)
                        (filter (\<lambda>r. tm_tweet_id r = t_id tweet) (tweet_media s))) of
        Inl e \<Rightarrow> Inl e
      | Inr attachments \<Rightarrow>
          (case collect (map (like_entry s)
                             (filter (\<lambda>l. l_tweet_id l = t_id tweet) (likes s))) of
             Inl e \<Rightarrow> Inl e
           | Inr likes_list \<Rightarrow>
               (case find (\<lambda>u. Some (u_id u) = t_user_id tweet) (users s) of
                  None \<Rightarrow> Inl AttributeError
                | Some author \<Rightarrow>
                    Inr \<lparr>d_id = t_id tweet, d_content = t_content tweet,
                         d_attachments = attachments,
                         d_author = (u_id author, u_name author),
                         d_likes = likes_list\<rparr>)))"

definition get_tweets ::
    "Users \<Rightarrow> int option \<Rightarrow> int option \<Rightarrow> db \<Rightarrow> (error + tweet_dict list) \<times> db" where
  "get_tweets user limit offset s =
     (case get_tweets_query user limit offset s of
        (Inl e, s1) \<Rightarrow> (Inl e, s1)
      | (Inr tweets_rows, s1) \<Rightarrow> (collect (map (make_tweet_dict s) tweets_rows), s1))"

section \<open>Notions used in the statements\<close>

text \<open>
  The file \<open>del_tweet\<close> removes for a media row: the upload directory joined with the
  base name of the stored path.
\<close>

definition stored_file :: "Settings \<Rightarrow> Media \<Rightarrow> string option" where
  "stored_file cfg med =
     map_option (\<lambda>p. os_path_join (UPL_DIR cfg) (os_path_basename p)) (m_file_path med)"

text \<open>No TweetMedia row of the state references the media key.\<close>

definition unreferenced :: "db \<Rightarrow> int \<Rightarrow> bool" where
  "unreferenced s mid = (\<forall>r \<in> set (tweet_media s). tm_media_id r \<noteq> mid)"

text \<open>The media objects of a preloaded list that no TweetMedia row references.\<close>

definition reclaimed :: "db \<Rightarrow> (TweetMedia \<times> Media option) list \<Rightarrow> Media list" where
  "reclaimed s L = filter (\<lambda>med. unreferenced s (m_id med)) (List.map_filter snd L)"

text \<open>\<open>precedes xs a b\<close>: some occurrence of \<open>a\<close> in \<open>xs\<close> comes before an occurrence of \<open>b\<close>.\<close>

fun precedes :: "'a list \<Rightarrow> 'a \<Rightarrow> 'a \<Rightarrow> bool" where
  "precedes [] a b = False"
| "precedes (x # xs) a b = ((x = a \<and> b \<in> set xs) \<or> precedes xs a b)"

text \<open>
  The tweets a user's feed draws from: those whose author is in the following list.
\<close>

definition visible_tweets :: "Users \<Rightarrow> db \<Rightarrow> Tweets list" where
  "visible_tweets user s =
     filter (\<lambda>t. case t_user_id t of None \<Rightarrow> False
                  | Some v \<Rightarrow> v \<in> set (following_list user
                        (filter (\<lambda>f. f_follower_id f = u_id user) (followers s))))
       (tweets s)"

text \<open>The pair the feed is ordered by: like count descending, creation time descending.\<close>

definition feed_key :: "db \<Rightarrow> Tweets \<Rightarrow> int list" where
  "feed_key s t = [- likes_count s t, - t_created_at t]"

text \<open>
  The whole ordered feed as the query with the given LIMIT and OFFSET sees it: the
  visible tweets sorted by the feed key, ties in the order open to that query.
\<close>

definition feed_sorted :: "Users \<Rightarrow> int option \<Rightarrow> int option \<Rightarrow> db \<Rightarrow> Tweets list" where
  "feed_sorted user limit offset s =
     sort_key (\<lambda>t. feed_key s t @ [tie_order s (Suc (length (calls s))) limit offset t])
       (visible_tweets user s)"

section \<open>Example states\<close>

text \<open>Concrete users, settings and database states on which the properties are evaluated.\<close>

definition empty_db :: db where
  "empty_db = \<lparr>users = [], tweets = [], media = [], tweet_media = [], likes = [], followers = [],
     tweets_seq = 1, media_seq = 1, tweet_media_seq = 1, likes_seq = 1, followers_seq = 1,
     now = 0, files = [], calls = [], tie_order = (\<lambda>n limit offset t. 0)\<rparr>"

definition user1 :: Users where
  "user1 = \<lparr>u_id = 1, u_name = Some ''U'', u_api_key = Some ''key-u''\<rparr>"

definition user2 :: Users where
  "user2 = \<lparr>u_id = 2, u_name = Some ''V'', u_api_key = Some ''key-v''\<rparr>"

definition user3 :: Users where
  "user3 = \<lparr>u_id = 3, u_name = Some ''W'', u_api_key = Some ''key-w''\<rparr>"

definition config :: Settings where
  "config = \<lparr>UPL_DIR = ''/app/uploads'', SAVE_PATH = ''/media/''\<rparr>"

text \<open>User 1 already follows user 2.\<close>

definition follow_db :: db where
  "follow_db = empty_db\<lparr>users := [user1, user2],
     followers := [\<lparr>f_id = 1, f_follower_id = 1, f_followee_id = 2\<rparr>], followers_seq := 2\<rparr>"

text \<open>One tweet of user 2, liked by user 1 and by user 2; user 1 follows user 2.\<close>

definition liked_db :: db where
  "liked_db = empty_db\<lparr>users := [user1, user2],
     tweets := [\<lparr>t_id = 1, t_user_id = Some 2, t_content = Some ''hello'', t_created_at = 10\<rparr>],
     media := [\<lparr>m_id = 1, m_file_path = Some ''/media/a.jpg'', m_user_id = 2\<rparr>],
     tweet_media := [\<lparr>tm_id = 1, tm_tweet_id = 1, tm_media_id = 1\<rparr>],
     likes := [\<lparr>l_id = 1, l_tweet_id = 1, l_user_id = 1\<rparr>,
               \<lparr>l_id = 2, l_tweet_id = 1, l_user_id = 2\<rparr>],
     followers := [\<lparr>f_id = 1, f_follower_id = 1, f_followee_id = 2\<rparr>],
     tweets_seq := 2, media_seq := 2, tweet_media_seq := 2, likes_seq := 3, followers_seq := 2,
     files := [''/app/uploads/a.jpg'']\<rparr>"

text \<open>A tweet whose media row names a file that is not in the upload directory.\<close>

definition missing_file_db :: db where
  "missing_file_db = empty_db\<lparr>users := [user1],
     tweets := [\<lparr>t_id = 1, t_user_id = Some 1, t_content = Some ''hello'', t_created_at = 10\<rparr>],
     media := [\<lparr>m_id = 1, m_file_path = Some ''/media/a.jpg'', m_user_id = 1\<rparr>],
     tweet_media := [\<lparr>tm_id = 1, tm_tweet_id = 1, tm_media_id = 1\<rparr>],
     tweets_seq := 2, media_seq := 2, tweet_media_seq := 2\<rparr>"


text \<open>
  The state user 1 reaches from an empty database by uploading two files without a
  file name (both become \<open>default_file.jpeg\<close>), posting tweet 1 with media 1 and 2, and
  posting tweet 2 with media 2.
\<close>

definition same_name_db :: db where
  "same_name_db =
     snd (add_new_tweet user1 \<lparr>tweet_data = ''two'', tweet_media_ids = Some [2]\<rparr>
       (snd (add_new_tweet user1 \<lparr>tweet_data = ''one'', tweet_media_ids = Some [1, 2]\<rparr>
         (snd (add_media_files config user1 None None
           (snd (add_media_files config user1 None None (empty_db\<lparr>users := [user1]\<rparr>))))))))"

text \<open>
  User 1 follows user 2; user 3 is followed by nobody. Tweets 1 and 5 are of user 2
  (two likes each), tweets 2 and 4 of user 1 (no like), tweet 3 of user 3 (one like).
\<close>

definition feed_db :: db where
  "feed_db = empty_db\<lparr>users := [user1, user2, user3],
     tweets := [\<lparr>t_id = 1, t_user_id = Some 2, t_content = Some ''a'', t_created_at = 10\<rparr>,
                \<lparr>t_id = 2, t_user_id = Some 1, t_content = Some ''b'', t_created_at = 20\<rparr>,
                \<lparr>t_id = 3, t_user_id = Some 3, t_content = Some ''c'', t_created_at = 30\<rparr>,
                \<lparr>t_id = 4, t_user_id = Some 1, t_content = Some ''d'', t_created_at = 40\<rparr>,
                \<lparr>t_id = 5, t_user_id = Some 2, t_content = Some ''e'', t_created_at = 50\<rparr>],
     likes := [\<lparr>l_id = 1, l_tweet_id = 1, l_user_id = 1\<rparr>,
               \<lparr>l_id = 2, l_tweet_id = 1, l_user_id = 3\<rparr>,
               \<lparr>l_id = 3, l_tweet_id = 3, l_user_id = 1\<rparr>,
               \<lparr>l_id = 4, l_tweet_id = 5, l_user_id = 1\<rparr>,
               \<lparr>l_id = 5, l_tweet_id = 5, l_user_id = 2\<rparr>],
     followers := [\<lparr>f_id = 1, f_follower_id = 1, f_followee_id = 2\<rparr>],
     tweets_seq := 6, likes_seq := 6, followers_seq := 2\<rparr>"

text \<open>Two tweets of user 1 with no like and the same creation time.\<close>

definition tie_db :: db where
  "tie_db = empty_db\<lparr>users := [user1],
     tweets := [\<lparr>t_id = 1, t_user_id = Some 1, t_content = Some ''a'', t_created_at = 10\<rparr>,
                \<lparr>t_id = 2, t_user_id = Some 1, t_content = Some ''b'', t_created_at = 10\<rparr>],
     tweets_seq := 3\<rparr>"

section \<open>Auxiliary facts\<close>

lemma filter_unique:
  "distinct (map f xs) \<Longrightarrow> x \<in> set xs \<Longrightarrow> filter (\<lambda>y. f y = f x) xs = [x]"
proof (induction xs)
  case Nil
  then show ?case by simp
next
  case (Cons a xs)
  show ?case
  proof (cases "a = x")
    case True
    with Cons.prems have "f x \<notin> f ` set xs" by simp
    then have "\<And>y. y \<in> set xs \<Longrightarrow> f y \<noteq> f x" by (metis imageI)
    then have "filter (\<lambda>y. f y = f x) xs = []" by (simp add: filter_empty_conv)
    with True show ?thesis by simp
  next
    case False
    with Cons.prems have xin: "x \<in> set xs" and d: "distinct (map f xs)" and "f a \<notin> f ` set xs"
      by auto
    then have "f a \<noteq> f x" by auto
    with Cons.IH[OF d xin] show ?thesis by simp
  qed
qed

lemma scalar_one_or_none_cases:
  "(scalar_one_or_none rows = Inr None \<longleftrightarrow> rows = [])
   \<and> (scalar_one_or_none rows = Inr (Some x) \<longleftrightarrow> rows = [x])
   \<and> (scalar_one_or_none rows = Inl e \<longleftrightarrow> e = MultipleResultsFound \<and> 2 \<le> length rows)"
  by (cases rows rule: scalar_one_or_none.cases) auto

lemma first_cases:
  "(first rows = None \<longleftrightarrow> rows = []) \<and> (first rows = Some x \<longleftrightarrow> rows \<noteq> [] \<and> hd rows = x)"
  by (cases rows) auto

section \<open>Follow and unfollow guards\<close>

text \<open>
  C9. A follow or an unfollow whose target is the caller's own id fails with the
  conflict error 409 at once: the returned state is the state the call received, so
  no store call has been logged (no user lookup, no read) and no Follow edge has been
  inserted or deleted.
\<close>

theorem self_guard:
  "add_subscribe user (u_id user) s
     = (Inl (HTTPException 409 ''You can't subscribe to yourself''), s)
   \<and> delete_subscribe user (u_id user) s
       = (Inl (HTTPException 409 ''You can't unsubscribe from yourself''), s)"
  by (simp add: add_subscribe_def delete_subscribe_def)

text \<open>
  C2. The claim wants a second follow of the same user to be found by a lookup and
  answered with a conflict error. Run on a state where user 1 already follows user 2,
  \<open>add_subscribe\<close> makes two store calls, the user lookup and the insert, and no
  relationship lookup; the insert fails on the constraint \<open>unique_follower_followee\<close>,
  so the error is the storage layer's IntegrityError and not an HTTP 409. The table
  keeps its single edge.
\<close>

theorem add_subscribe_duplicate_run:
  "add_subscribe user1 2 follow_db
     = (Inl IntegrityError, follow_db\<lparr>calls := [Users_get_by_id, Followers_add]\<rparr>)"
  by (simp add: add_subscribe_def follow_db_def empty_db_def user1_def user2_def
      UserRepository_get_by_id_def FollowerRepository_add_def log_call_def)

section \<open>Likes\<close>

text \<open>
  C7. In a state that satisfies the primary key of the tweets and the constraint
  \<open>unique_like_tweet\<close>, where tweet T exists and user U already likes it, a further
  \<open>add_like\<close> of U on T fails with the conflict error 409 and leaves the Like table as
  it was, with exactly one row for the pair.
\<close>

theorem duplicate_like_conflict:
  assumes pk: "distinct (map t_id (tweets s))"
    and uq: "distinct (map (\<lambda>l. (l_tweet_id l, l_user_id l)) (likes s))"
    and t: "\<exists>t \<in> set (tweets s). t_id t = tid"
    and l: "\<exists>l \<in> set (likes s). l_tweet_id l = tid \<and> l_user_id l = u_id user"
  shows "fst (add_like user tid s) = Inl (HTTPException 409 ''You can't put more than 1 like'')
     \<and> likes (snd (add_like user tid s)) = likes s
     \<and> length (filter (\<lambda>l. l_tweet_id l = tid \<and> l_user_id l = u_id user)
                 (likes (snd (add_like user tid s)))) = 1"
proof -
  from t obtain tw where tw: "tw \<in> set (tweets s)" "t_id tw = tid" by blast
  from filter_unique[OF pk tw(1)] tw(2)
  have ft: "filter (\<lambda>t. t_id t = tid) (tweets s) = [tw]" by simp
  from l obtain lk where lk: "lk \<in> set (likes s)" "l_tweet_id lk = tid" "l_user_id lk = u_id user"
    by blast
  from filter_unique[OF uq lk(1)] lk(2,3)
  have fl: "filter (\<lambda>l. l_tweet_id l = tid \<and> l_user_id l = u_id user) (likes s) = [lk]"
    by simp
  have sel: "select_where like_eq [Like_tweet_id tid, Like_user_id (u_id user)] (likes s) = [lk]"
    using fl by (simp add: select_where_def)
  show ?thesis
    by (simp add: add_like_def TweetRepository_get_by_id_def LikeRepository_filter_def
        log_call_def ft sel fl)
qed

theorem duplicate_like_conflict_witness:
  "fst (add_like user1 1 liked_db) = Inl (HTTPException 409 ''You can't put more than 1 like'')
   \<and> likes (snd (add_like user1 1 liked_db)) = likes liked_db
   \<and> length (filter (\<lambda>l. l_tweet_id l = 1 \<and> l_user_id l = u_id user1)
               (likes (snd (add_like user1 1 liked_db)))) = 1"
  using duplicate_like_conflict [of liked_db 1 user1]
  by (simp add: liked_db_def empty_db_def user1_def)

section \<open>Single-row lookups\<close>

text \<open>
  C3. The claim wants every Like lookup, for any field-equality arguments, to return
  at most one result or None, and the docstring of \<open>LikeRepository.filter\<close> promises
  the first matching like or None. Run with the tweet key alone on a tweet that has two
  likes, the lookup returns neither: \<open>scalar_one_or_none\<close> raises MultipleResultsFound.
  The sibling \<open>TweetMediaRepository.filter\<close> ends in \<open>first()\<close> and returns the first
  match on such an input.
\<close>

theorem like_lookup_raises:
  "fst (LikeRepository_filter [Like_tweet_id 1] liked_db) = Inl MultipleResultsFound"
  by (simp add: LikeRepository_filter_def select_where_def liked_db_def empty_db_def)

section \<open>The file-path guard of del_tweet\<close>

lemma loop_file_not_found:
  "del_tweet_loop cfg L s = (Inl (FileNotFoundError msg), s') \<Longrightarrow>
     msg = ''[Errno 2] No such file or directory'' \<and> last (calls s') = Os_remove"
proof (induction cfg L s rule: del_tweet_loop.induct)
  case (1 settings s)
  then show ?case by simp
next
  case (2 settings tm rest s)
  then show ?case by simp
next
  case (3 settings tm med rest s)
  then show ?case
    by (auto simp: TweetMediaRepository_filter_def os_remove_def log_call_def Let_def
        split: option.splits if_splits prod.splits sum.splits)
qed

lemma del_tweet_file_not_found:
  assumes "del_tweet cfg user i s = (Inl (FileNotFoundError msg), s')"
  shows "msg = ''[Errno 2] No such file or directory'' \<and> last (calls s') = Os_remove"
proof -
  from assms obtain L s0 where "del_tweet_loop cfg L s0 = (Inl (FileNotFoundError msg), s')"
    by (auto simp: del_tweet_def TweetRepository_filter_def Let_def split: list.splits)
  then show ?thesis by (rule loop_file_not_found)
qed

lemma missing_file_run:
  "fst (del_tweet config user1 1 missing_file_db)
     = Inl (FileNotFoundError ''[Errno 2] No such file or directory'')"
  by (simp add: del_tweet_def TweetRepository_filter_def select_where_def missing_file_db_def
      empty_db_def user1_def config_def Tweets_media_def TweetRepository_delete_def log_call_def
      TweetMediaRepository_filter_def os_remove_def os_path_basename_def os_path_join_def)

text \<open>
  C10. In the cleanup loop of \<open>del_tweet\<close> the variable \<open>file_path\<close> always holds the
  string \<open>os.path.join\<close> built, so for every input the call never ends in the guard's
  \<open>FileNotFoundError("File not found")\<close>. Whenever \<open>del_tweet\<close> ends in a
  FileNotFoundError at all, it is the one \<open>os.remove\<close> raised for a missing file, and
  \<open>os.remove\<close> is the last call made.
\<close>

theorem file_path_guard_unreachable:
  "fst (del_tweet cfg user i s) \<noteq> Inl (FileNotFoundError ''File not found'')
   \<and> (\<forall>msg. fst (del_tweet cfg user i s) = Inl (FileNotFoundError msg) \<longrightarrow>
         msg = ''[Errno 2] No such file or directory''
         \<and> last (calls (snd (del_tweet cfg user i s))) = Os_remove)"
proof -
  have a: "msg = ''[Errno 2] No such file or directory''
           \<and> last (calls (snd (del_tweet cfg user i s))) = Os_remove"
    if "fst (del_tweet cfg user i s) = Inl (FileNotFoundError msg)" for msg
    using that del_tweet_file_not_found [of cfg user i s msg "snd (del_tweet cfg user i s)"]
    by (metis prod.collapse)
  then show ?thesis by fastforce
qed

theorem file_path_guard_unreachable_witness:
  "fst (del_tweet config user1 1 missing_file_db)
     = Inl (FileNotFoundError ''[Errno 2] No such file or directory'')
   \<and> last (calls (snd (del_tweet config user1 1 missing_file_db))) = Os_remove"
  using file_path_guard_unreachable [of config user1 1 missing_file_db] missing_file_run
  by simp

section \<open>Effect of del_tweet\<close>

lemma log_call_fields [simp]:
  "users (log_call c s) = users s" "tweets (log_call c s) = tweets s"
  "media (log_call c s) = media s" "tweet_media (log_call c s) = tweet_media s"
  "likes (log_call c s) = likes s" "followers (log_call c s) = followers s"
  "files (log_call c s) = files s" "now (log_call c s) = now s"
  "tweets_seq (log_call c s) = tweets_seq s" "media_seq (log_call c s) = media_seq s"
  "tweet_media_seq (log_call c s) = tweet_media_seq s"
  by (simp_all add: log_call_def)

lemma reclaimed_cong: "tweet_media s' = tweet_media s \<Longrightarrow> reclaimed s' L = reclaimed s L"
  by (simp add: reclaimed_def unreferenced_def)

lemma reclaimed_simps:
  "reclaimed s [] = []"
  "reclaimed s ((tm, None) # L) = reclaimed s L"
  "reclaimed s ((tm, Some med) # L) =
     (if unreferenced s (m_id med) then med # reclaimed s L else reclaimed s L)"
  by (simp_all add: reclaimed_def)

lemma tm_filter_None:
  "fst (TweetMediaRepository_filter [TweetMedia_media_id mid] s) = None \<longleftrightarrow> unreferenced s mid"
  by (simp add: TweetMediaRepository_filter_def select_where_def unreferenced_def
      first_cases filter_empty_conv)

text \<open>One turn of the cleanup loop, with the lookup and \<open>os.remove\<close> evaluated.\<close>

lemma loop_step:
  "del_tweet_loop cfg ((tm, Some med) # rest) s =
     (let s1 = log_call TweetMedia_filter s in
      if unreferenced s (m_id med) then
        (case stored_file cfg med of
           None \<Rightarrow> (Inl TypeError, s1)
         | Some path \<Rightarrow>
             if path \<in> set (files s)
             then del_tweet_loop cfg rest
                    (MediaRepository_delete med
                       ((log_call Os_remove s1)\<lparr>files := removeAll path (files s)\<rparr>))
             else (Inl (FileNotFoundError ''[Errno 2] No such file or directory''),
                   log_call Os_remove s1))
      else del_tweet_loop cfg rest s1)"
proof (cases "unreferenced s (m_id med)")
  case True
  then have "first (select_where tweet_media_eq [TweetMedia_media_id (m_id med)] (tweet_media s)) = None"
    by (simp add: select_where_def unreferenced_def first_cases filter_empty_conv)
  then show ?thesis using True
    by (simp add: TweetMediaRepository_filter_def stored_file_def os_remove_def Let_def
        split: option.splits)
next
  case False
  then obtain link where
    "first (select_where tweet_media_eq [TweetMedia_media_id (m_id med)] (tweet_media s)) = Some link"
    using tm_filter_None[of "m_id med" s] by (auto simp: TweetMediaRepository_filter_def)
  then show ?thesis using False
    by (simp add: TweetMediaRepository_filter_def)
qed

text \<open>What a cleanup loop that returns normally has done to the state.\<close>

lemma loop_ok:
  "del_tweet_loop cfg L s = (Inr (), s') \<Longrightarrow>
     tweet_media s' = tweet_media s \<and> tweets s' = tweets s \<and> likes s' = likes s
   \<and> media s' = filter (\<lambda>m. m_id m \<notin> m_id ` set (reclaimed s L)) (media s)
   \<and> set (files s') = set (files s) - {p. \<exists>med \<in> set (reclaimed s L). stored_file cfg med = Some p}
   \<and> None \<notin> snd ` set L
   \<and> (\<forall>med \<in> set (reclaimed s L). \<exists>p. stored_file cfg med = Some p \<and> p \<in> set (files s))"
proof (induction L arbitrary: s)
  case Nil
  then show ?case by (simp add: reclaimed_simps)
next
  case (Cons x rest)
  obtain tm mo where x: "x = (tm, mo)" by (cases x)
  show ?case
  proof (cases mo)
    case None
    with Cons.prems x show ?thesis by simp
  next
    case (Some med)
    let ?s1 = "log_call TweetMedia_filter s"
    note step = loop_step[of cfg tm med rest s]
    show ?thesis
    proof (cases "unreferenced s (m_id med)")
      case False
      with Cons.prems x Some step have run: "del_tweet_loop cfg rest ?s1 = (Inr (), s')"
        by (simp add: Let_def)
      have tm1: "tweet_media ?s1 = tweet_media s" by simp
      from Cons.IH[OF run] False
      show ?thesis unfolding x Some by (simp add: reclaimed_simps reclaimed_cong[OF tm1])
    next
      case True
      with Cons.prems x Some step obtain path where sf: "stored_file cfg med = Some path"
        by (cases "stored_file cfg med") (simp_all add: Let_def)
      let ?s3 = "MediaRepository_delete med
                  ((log_call Os_remove ?s1)\<lparr>files := removeAll path (files s)\<rparr>)"
      from Cons.prems x Some step True sf have inf: "path \<in> set (files s)"
        by (cases "path \<in> set (files s)") (simp_all add: Let_def)
      with Cons.prems x Some step True sf have run: "del_tweet_loop cfg rest ?s3 = (Inr (), s')"
        by (simp add: Let_def)
      have keep: "filter (\<lambda>r. tm_media_id r \<noteq> m_id med) (tweet_media s) = tweet_media s"
        using True by (simp add: unreferenced_def)
      have f3: "tweet_media ?s3 = tweet_media s" "tweets ?s3 = tweets s" "likes ?s3 = likes s"
        "media ?s3 = filter (\<lambda>r. m_id r \<noteq> m_id med) (media s)"
        "files ?s3 = removeAll path (files s)"
        by (simp_all add: MediaRepository_delete_def keep)
      have rc: "reclaimed s ((tm, Some med) # rest) = med # reclaimed s rest"
        using True by (simp add: reclaimed_simps)
      have rc3: "reclaimed ?s3 rest = reclaimed s rest" by (rule reclaimed_cong) (simp add: f3)
      note ih = Cons.IH[OF run]
      from ih have a: "tweet_media s' = tweet_media s" "tweets s' = tweets s" "likes s' = likes s"
        unfolding f3 by simp_all
      from ih have b: "media s' = filter (\<lambda>m. m_id m \<notin> m_id ` set (reclaimed s rest))
                           (filter (\<lambda>r. m_id r \<noteq> m_id med) (media s))"
        unfolding rc3 f3 by simp
      from ih have c: "set (files s') = set (removeAll path (files s))
                - {p. \<exists>med \<in> set (reclaimed s rest). stored_file cfg med = Some p}"
        unfolding rc3 f3 by simp
      from ih have d: "None \<notin> snd ` set rest" by simp
      from ih have e: "\<forall>m \<in> set (reclaimed s rest). \<exists>p. stored_file cfg m = Some p
                          \<and> p \<in> set (removeAll path (files s))"
        unfolding rc3 f3 by simp
      have b': "media s' = filter (\<lambda>m. m_id m \<notin> m_id ` set (med # reclaimed s rest)) (media s)"
        unfolding b by (simp add: conj_commute)
      have c': "set (files s') = set (files s)
                - {p. \<exists>m \<in> set (med # reclaimed s rest). stored_file cfg m = Some p}"
        unfolding c using sf by auto
      have d': "None \<notin> snd ` set ((tm, Some med) # rest)" using d by simp
      have e': "\<forall>m \<in> set (med # reclaimed s rest). \<exists>p. stored_file cfg m = Some p
                   \<and> p \<in> set (files s)"
        using e sf inf by auto
      show ?thesis unfolding x Some rc using a b' c' d' e' by blast
    qed
  qed
qed

lemma find_id:
  "find (\<lambda>m. m_id m = k) ms = Some med \<Longrightarrow> m_id med = k \<and> med \<in> set ms"
  by (induction ms) (auto split: if_splits)

lemma find_distinct:
  "distinct (map m_id ms) \<Longrightarrow> med \<in> set ms \<Longrightarrow> find (\<lambda>m. m_id m = m_id med) ms = Some med"
  by (induction ms) (auto simp: image_iff)

lemma set_reclaimed:
  "m \<in> set (reclaimed s L) \<longleftrightarrow> Some m \<in> snd ` set L \<and> unreferenced s (m_id m)"
  by (induction L) (auto simp: reclaimed_def split: option.splits)

lemma del_tweet_unfold:
  assumes "del_tweet cfg user tid s = (Inr (), s')"
  shows "\<exists>tweet. t_id tweet = tid \<and>
           del_tweet_loop cfg (Tweets_media s tweet)
             (TweetRepository_delete tweet (log_call Tweets_filter s)) = (Inr (), s')"
proof -
  let ?q = "sort_key (\<lambda>t. [tie_order s (length (calls s)) None None t])
              (filter (\<lambda>r. t_id r = tid \<and> t_user_id r = Some (u_id user)) (tweets s))"
  have f: "TweetRepository_filter [Tweets_id tid, Tweets_user_id (u_id user)] [] [] None None s
            = (Inr ?q, log_call Tweets_filter s)"
    by (simp add: TweetRepository_filter_def select_where_def)
  from assms obtain tweet others where q: "?q = tweet # others"
    unfolding del_tweet_def f by (cases ?q) simp_all
  then have "tweet \<in> set ?q" by simp
  then have "t_id tweet = tid" by simp
  moreover from assms have "del_tweet_loop cfg (Tweets_media s tweet)
             (TweetRepository_delete tweet (log_call Tweets_filter s)) = (Inr (), s')"
    unfolding del_tweet_def f q by (simp add: Let_def)
  ultimately show ?thesis by blast
qed

text \<open>
  What a \<open>del_tweet\<close> that returns normally has done, in a state whose media keys are
  unique (the primary key of the table).
\<close>

lemma del_tweet_effect:
  assumes pk: "distinct (map m_id (media s))"
    and run: "del_tweet cfg user tid s = (Inr (), s')"
  shows "tweet_media s' = filter (\<lambda>r. tm_tweet_id r \<noteq> tid) (tweet_media s)"
    and "\<And>m. m \<in> set (media s) \<Longrightarrow>
           m \<in> set (media s') \<longleftrightarrow>
             \<not> ((\<exists>r \<in> set (tweet_media s). tm_tweet_id r = tid \<and> tm_media_id r = m_id m)
                \<and> unreferenced s' (m_id m))"
    and "set (media s') \<subseteq> set (media s)"
    and "\<And>p. p \<in> set (files s') \<longleftrightarrow>
           p \<in> set (files s) \<and> (\<forall>m \<in> set (media s) - set (media s'). stored_file cfg m \<noteq> Some p)"
    and "\<And>m. m \<in> set (media s) - set (media s') \<Longrightarrow>
           \<exists>p. stored_file cfg m = Some p \<and> p \<in> set (files s)"
    and "distinct (map m_id (media s'))"
proof -
  from del_tweet_unfold[OF run] obtain tweet where tid: "t_id tweet = tid"
    and loop: "del_tweet_loop cfg (Tweets_media s tweet)
             (TweetRepository_delete tweet (log_call Tweets_filter s)) = (Inr (), s')" by blast
  let ?L = "Tweets_media s tweet"
  let ?s0 = "TweetRepository_delete tweet (log_call Tweets_filter s)"
  have s0: "tweet_media ?s0 = filter (\<lambda>r. tm_tweet_id r \<noteq> tid) (tweet_media s)"
    "media ?s0 = media s" "files ?s0 = files s"
    by (simp_all add: TweetRepository_delete_def tid)
  note ok = loop_ok[OF loop]
  from ok show tm: "tweet_media s' = filter (\<lambda>r. tm_tweet_id r \<noteq> tid) (tweet_media s)"
    by (simp add: s0)
  have unref: "unreferenced ?s0 = unreferenced s'"
    using ok by (simp add: unreferenced_def fun_eq_iff)
  have nonone: "None \<notin> snd ` set ?L" using ok by simp
  have rec: "set (reclaimed ?s0 ?L) =
      {m \<in> set (media s). (\<exists>r \<in> set (tweet_media s). tm_tweet_id r = tid \<and> tm_media_id r = m_id m)
                          \<and> unreferenced s' (m_id m)}" (is "?A = ?B")
  proof (intro set_eqI iffI)
    fix m assume "m \<in> ?A"
    then have u: "unreferenced s' (m_id m)" and "Some m \<in> snd ` set ?L"
      by (simp_all add: set_reclaimed unref)
    then obtain r where r: "r \<in> set (tweet_media s)" "tm_tweet_id r = tid"
      "find (\<lambda>x. m_id x = tm_media_id r) (media s) = Some m"
      by (auto simp: Tweets_media_def tid)
    from find_id[OF r(3)] r(1,2) u show "m \<in> ?B" by auto
  next
    fix m assume "m \<in> ?B"
    then obtain r where m: "m \<in> set (media s)" and r: "r \<in> set (tweet_media s)" "tm_tweet_id r = tid"
      "tm_media_id r = m_id m" and u: "unreferenced s' (m_id m)" by blast
    from find_distinct[OF pk m] r(3)
    have "find (\<lambda>x. m_id x = tm_media_id r) (media s) = Some m" by simp
    with r(1,2) have "(r, Some m) \<in> set ?L" by (auto simp: Tweets_media_def tid)
    then have "Some m \<in> snd ` set ?L" by force
    with u show "m \<in> ?A" by (simp add: set_reclaimed unref)
  qed
  have med: "media s' = filter (\<lambda>m. m_id m \<notin> m_id ` set (reclaimed ?s0 ?L)) (media s)"
    using ok by (simp add: s0)
  have inj: "\<And>m m'. m \<in> set (media s) \<Longrightarrow> m' \<in> set (media s) \<Longrightarrow> m_id m = m_id m' \<Longrightarrow> m = m'"
    using pk by (meson distinct_map inj_onD)
  have del: "\<And>m. m \<in> set (media s) \<Longrightarrow> m \<in> set (media s') \<longleftrightarrow> m \<notin> set (reclaimed ?s0 ?L)"
  proof -
    fix m assume m: "m \<in> set (media s)"
    have "m_id m \<in> m_id ` set (reclaimed ?s0 ?L) \<longleftrightarrow> m \<in> set (reclaimed ?s0 ?L)"
    proof
      assume "m_id m \<in> m_id ` set (reclaimed ?s0 ?L)"
      then obtain m' where m': "m' \<in> set (reclaimed ?s0 ?L)" "m_id m = m_id m'" by auto
      then have "m' \<in> set (media s)" unfolding rec by simp
      from inj[OF m this m'(2)] m'(1) show "m \<in> set (reclaimed ?s0 ?L)" by simp
    qed simp
    with m show "m \<in> set (media s') \<longleftrightarrow> m \<notin> set (reclaimed ?s0 ?L)" unfolding med by simp
  qed
  show "\<And>m. m \<in> set (media s) \<Longrightarrow>
           m \<in> set (media s') \<longleftrightarrow>
             \<not> ((\<exists>r \<in> set (tweet_media s). tm_tweet_id r = tid \<and> tm_media_id r = m_id m)
                \<and> unreferenced s' (m_id m))"
    using del unfolding rec by simp
  show sub: "set (media s') \<subseteq> set (media s)" unfolding med by auto
  have diff: "set (media s) - set (media s') = set (reclaimed ?s0 ?L)"
    using del rec by blast
  show "\<And>p. p \<in> set (files s') \<longleftrightarrow>
           p \<in> set (files s) \<and> (\<forall>m \<in> set (media s) - set (media s'). stored_file cfg m \<noteq> Some p)"
    unfolding diff using ok by (auto simp: s0)
  show "\<And>m. m \<in> set (media s) - set (media s') \<Longrightarrow>
           \<exists>p. stored_file cfg m = Some p \<and> p \<in> set (files s)"
    unfolding diff using ok by (simp add: s0)
  show "distinct (map m_id (media s'))"
    unfolding med using pk by (rule distinct_map_filter)
qed

section \<open>Media reclamation\<close>

lemma same_name_db_value:
  "same_name_db = empty_db\<lparr>users := [user1],
     tweets := [\<lparr>t_id = 1, t_user_id = Some 1, t_content = Some ''one'', t_created_at = 0\<rparr>,
                \<lparr>t_id = 2, t_user_id = Some 1, t_content = Some ''two'', t_created_at = 0\<rparr>],
     media := [\<lparr>m_id = 1, m_file_path = Some ''/media/default_file.jpeg'', m_user_id = 1\<rparr>,
               \<lparr>m_id = 2, m_file_path = Some ''/media/default_file.jpeg'', m_user_id = 1\<rparr>],
     tweet_media := [\<lparr>tm_id = 1, tm_tweet_id = 1, tm_media_id = 1\<rparr>,
                     \<lparr>tm_id = 2, tm_tweet_id = 1, tm_media_id = 2\<rparr>,
                     \<lparr>tm_id = 3, tm_tweet_id = 2, tm_media_id = 2\<rparr>],
     tweets_seq := 3, media_seq := 3, tweet_media_seq := 4,
     files := [''/app/uploads/default_file.jpeg''],
     calls := [Os_write, Media_add, Os_write, Media_add, Media_filter, Tweets_add,
               TweetMedia_add_all, Media_filter, Tweets_add, TweetMedia_add_all]\<rparr>"
  by (simp add: same_name_db_def add_new_tweet_def add_media_files_def empty_db_def user1_def
      config_def MediaRepository_add_def MediaRepository_filter_def TweetRepository_add_def
      TweetMediaRepository_add_all_def select_where_def log_call_def os_path_join_def
      tm_pair_def int32_def Let_def)

text \<open>The definitions a concrete run of \<open>del_tweet\<close> unfolds.\<close>

lemmas run_defs = del_tweet_def TweetRepository_filter_def select_where_def
  Tweets_media_def TweetRepository_delete_def MediaRepository_delete_def log_call_def
  TweetMediaRepository_filter_def os_remove_def os_path_basename_def os_path_join_def
  empty_db_def user1_def config_def Let_def

text \<open>
  C1. The claim wants \<open>del_tweet\<close> on T1 to leave a media row that T2 still references,
  and its stored file, intact, and \<open>del_tweet\<close> on T2 afterwards to delete the row and
  the file. \<open>same_name_db\<close> is reached by two uploads without a file name, which
  \<open>add_media_files\<close> both stores as \<open>default_file.jpeg\<close>, followed by tweet 1 with
  media 1 and 2 and tweet 2 with media 2. There \<open>del_tweet\<close> on tweet 1 returns normally:
  it reclaims media 1 and removes the common file, so the row of media 2, which tweet 2
  still references, stays but its stored file is gone. \<open>del_tweet\<close> on tweet 2
  afterwards raises FileNotFoundError inside \<open>os.remove\<close> and leaves the row of media 2
  in the table although no TweetMedia row references it any more.
\<close>

theorem del_tweet_shared_file_run:
  "fst (del_tweet config user1 1 same_name_db) = Inr ()
   \<and> media (snd (del_tweet config user1 1 same_name_db))
       = [\<lparr>m_id = 2, m_file_path = Some ''/media/default_file.jpeg'', m_user_id = 1\<rparr>]
   \<and> tweet_media (snd (del_tweet config user1 1 same_name_db))
       = [\<lparr>tm_id = 3, tm_tweet_id = 2, tm_media_id = 2\<rparr>]
   \<and> files (snd (del_tweet config user1 1 same_name_db)) = []
   \<and> fst (del_tweet config user1 2 (snd (del_tweet config user1 1 same_name_db)))
       = Inl (FileNotFoundError ''[Errno 2] No such file or directory'')
   \<and> media (snd (del_tweet config user1 2 (snd (del_tweet config user1 1 same_name_db))))
       = [\<lparr>m_id = 2, m_file_path = Some ''/media/default_file.jpeg'', m_user_id = 1\<rparr>]
   \<and> tweet_media (snd (del_tweet config user1 2 (snd (del_tweet config user1 1 same_name_db))))
       = []"
  unfolding same_name_db_value by (simp add: run_defs)

section \<open>Creating a tweet with media\<close>










section \<open>The feed\<close>

subsection \<open>Auxiliary facts about the query\<close>

lemma collect_map_Inr: "collect (map Inr ys) = Inr ys"
  by (induction ys) simp_all

lemma collect_Inr_D: "collect xs = Inr ys \<Longrightarrow> xs = map Inr ys"
proof (induction xs arbitrary: ys rule: collect.induct)
  case 1
  then show ?case by simp
next
  case (2 e xs)
  then show ?case by simp
next
  case (3 x xs)
  then show ?case by (cases "collect xs") auto
qed

lemma collect_take_drop:
  assumes "collect (map f xs) = Inr ys"
  shows "collect (map f (take n (drop m xs))) = Inr (take n (drop m ys))"
proof -
  from assms have h: "map f xs = map Inr ys" by (rule collect_Inr_D)
  have "map f (take n (drop m xs)) = take n (drop m (map f xs))"
    by (simp add: take_map drop_map)
  also have "\<dots> = map Inr (take n (drop m ys))"
    unfolding h by (simp add: take_map drop_map)
  finally show ?thesis by (simp add: collect_map_Inr)
qed

text \<open>The query of \<open>get_tweets\<close> as one call of \<open>TweetRepository.filter\<close>.\<close>

lemma get_tweets_query_call:
  "get_tweets_query user limit offset s =
     TweetRepository_filter []
       [Tweets_user_id_in
          (following_list user (filter (\<lambda>f. f_follower_id f = u_id user) (followers s)))]
       [Likes_count_desc, Created_at_desc] limit
       (case (offset, limit) of (Some off, Some lim) \<Rightarrow> Some ((off - 1) * lim) | _ \<Rightarrow> offset)
       (log_call Followers_filter s)"
  by (simp add: get_tweets_query_def FollowerRepository_filter_def select_where_def)

lemma order_key_log:
  "order_key (log_call c s) [Likes_count_desc, Created_at_desc] = feed_key s"
  by (simp add: order_key_def likes_count_def feed_key_def fun_eq_iff log_call_def)

lemma log_call_tie [simp]:
  "tie_order (log_call c s) = tie_order s" "length (calls (log_call c s)) = Suc (length (calls s))"
  by (simp_all add: log_call_def)

text \<open>The rows the query returns, by the four combinations of limit and offset.\<close>

lemma feed_filter_fst:
  "fst (TweetRepository_filter []
       [Tweets_user_id_in
          (following_list user (filter (\<lambda>f. f_follower_id f = u_id user) (followers s)))]
       [Likes_count_desc, Created_at_desc] limit off (log_call Followers_filter s)) =
   (case off of
      Some k \<Rightarrow>
        if 0 \<le> k \<and> int64 k
        then (case limit of
                Some l \<Rightarrow> if 0 \<le> l \<and> int64 l
                          then Inr (take (nat l) (drop (nat k) (feed_sorted user limit off s)))
                          else Inl DBAPIError
              | None \<Rightarrow> Inr (drop (nat k) (feed_sorted user limit off s)))
        else Inl DBAPIError
    | None \<Rightarrow>
        (case limit of
           Some l \<Rightarrow> if 0 \<le> l \<and> int64 l then Inr (take (nat l) (feed_sorted user limit off s))
                     else Inl DBAPIError
         | None \<Rightarrow> Inr (feed_sorted user limit off s)))"
  by (cases off; cases limit)
     (simp_all add: TweetRepository_filter_def select_where_def order_key_log feed_sorted_def
        visible_tweets_def Let_def)

lemma query_None_None:
  "fst (get_tweets_query user None None s) = Inr (feed_sorted user None None s)"
  by (simp add: get_tweets_query_call feed_filter_fst)

lemma query_page:
  "fst (get_tweets_query user (Some limit) (Some page) s)
     = (if 0 \<le> limit \<and> int64 limit \<and> 0 \<le> (page - 1) * limit \<and> int64 ((page - 1) * limit)
        then Inr (take (nat limit) (drop (nat ((page - 1) * limit))
                    (feed_sorted user (Some limit) (Some ((page - 1) * limit)) s)))
        else Inl DBAPIError)"
  by (simp add: get_tweets_query_call feed_filter_fst)

lemma query_rows_sublist:
  assumes "fst (get_tweets_query user limit offset s) = Inr rows"
  shows "\<exists>n m. rows = take n (drop m (feed_sorted user limit
           (case (offset, limit) of (Some off, Some lim) \<Rightarrow> Some ((off - 1) * lim) | _ \<Rightarrow> offset) s))"
proof -
  let ?off = "case (offset, limit) of (Some off, Some lim) \<Rightarrow> Some ((off - 1) * lim) | _ \<Rightarrow> offset"
  let ?F = "feed_sorted user limit ?off s"
  from assms have a: "fst (TweetRepository_filter []
       [Tweets_user_id_in
          (following_list user (filter (\<lambda>f. f_follower_id f = u_id user) (followers s)))]
       [Likes_count_desc, Created_at_desc] limit ?off (log_call Followers_filter s)) = Inr rows"
    by (simp only: get_tweets_query_call)
  show ?thesis
  proof (cases ?off)
    case None
    show ?thesis
    proof (cases limit)
      case None
      with a \<open>?off = None\<close> have "rows = ?F" by (simp add: feed_filter_fst)
      then have "rows = take (length ?F) (drop 0 ?F)" by simp
      then show ?thesis by blast
    next
      case (Some l)
      with a \<open>?off = None\<close> have "rows = take (nat l) ?F"
        by (simp add: feed_filter_fst split: if_splits)
      then have "rows = take (nat l) (drop 0 ?F)" by simp
      then show ?thesis by blast
    qed
  next
    case (Some k)
    show ?thesis
    proof (cases limit)
      case None
      with a Some have "rows = drop (nat k) ?F" by (simp add: feed_filter_fst split: if_splits)
      then have "rows = take (length ?F) (drop (nat k) ?F)" by simp
      then show ?thesis by blast
    next
      case (Some l)
      with a \<open>?off = Some k\<close> have "rows = take (nat l) (drop (nat k) ?F)"
        by (simp add: feed_filter_fst split: if_splits)
      then show ?thesis by blast
    qed
  qed
qed

text \<open>The whole ordered feed holds the visible tweets, each once, sorted by the feed key.\<close>

lemma feed_sorted_mset: "mset (feed_sorted user limit off s) = mset (visible_tweets user s)"
  by (simp add: feed_sorted_def)

lemma key_prefix_le:
  "feed_key s a @ [x] \<le> feed_key s b @ [y] \<Longrightarrow> feed_key s a \<le> feed_key s b"
  by (auto simp: feed_key_def split: if_splits)

lemma feed_sorted_sorted: "sorted (map (feed_key s) (feed_sorted user limit off s))"
proof -
  let ?r = "tie_order s (Suc (length (calls s))) limit off"
  have "sorted (map (\<lambda>t. feed_key s t @ [?r t]) (feed_sorted user limit off s))"
    unfolding feed_sorted_def by (rule sorted_sort_key)
  then have "sorted_wrt (\<lambda>a b. feed_key s a @ [?r a] \<le> feed_key s b @ [?r b])
               (feed_sorted user limit off s)"
    by (simp only: sorted_map)
  then have "sorted_wrt (\<lambda>a b. feed_key s a \<le> feed_key s b) (feed_sorted user limit off s)"
    by (rule sorted_wrt_mono_rel[rotated]) (rule key_prefix_le)
  then show ?thesis by (simp only: sorted_map)
qed

lemma get_tweets_fst:
  "fst (get_tweets user limit offset s) =
     (case fst (get_tweets_query user limit offset s) of
        Inl e \<Rightarrow> Inl e
      | Inr rows \<Rightarrow> collect (map (make_tweet_dict s) rows))"
  by (cases "get_tweets_query user limit offset s")
     (auto simp: get_tweets_def split: sum.splits)

lemma feed_sorted_visible:
  assumes "t \<in> set (feed_sorted user limit off s)"
  shows "t \<in> set (tweets s) \<and>
         (t_user_id t = Some (u_id user) \<or>
          (\<exists>f \<in> set (followers s). f_follower_id f = u_id user \<and> t_user_id t = Some (f_followee_id f)))"
proof -
  from assms have t: "t \<in> set (tweets s)"
    and v: "case t_user_id t of None \<Rightarrow> False
            | Some v \<Rightarrow> v \<in> set (following_list user
                  (filter (\<lambda>f. f_follower_id f = u_id user) (followers s)))"
    by (simp_all add: feed_sorted_def visible_tweets_def)
  from v obtain v where sv: "t_user_id t = Some v"
    and vin: "v \<in> set (following_list user (filter (\<lambda>f. f_follower_id f = u_id user) (followers s)))"
    by (cases "t_user_id t") auto
  from vin have "v = u_id user \<or> (\<exists>f \<in> set (followers s). f_follower_id f = u_id user \<and> v = f_followee_id f)"
    by (auto simp: following_list_def split: if_splits)
  with t sv show ?thesis by auto
qed

lemma rows_subset:
  assumes "fst (get_tweets_query user limit offset s) = Inr rows"
  shows "set rows \<subseteq> set (feed_sorted user limit
           (case (offset, limit) of (Some off, Some lim) \<Rightarrow> Some ((off - 1) * lim) | _ \<Rightarrow> offset) s)"
proof -
  from query_rows_sublist[OF assms] obtain n m where "rows = take n (drop m (feed_sorted user limit
           (case (offset, limit) of (Some off, Some lim) \<Rightarrow> Some ((off - 1) * lim) | _ \<Rightarrow> offset) s))"
    by blast
  then show ?thesis by (metis set_take_subset set_drop_subset subset_trans)
qed

lemma make_tweet_dict_fields:
  assumes "make_tweet_dict s t = Inr d"
  shows "d_id d = t_id t"
    and "length (d_likes d) = length (filter (\<lambda>l. l_tweet_id l = t_id t) (likes s))"
    and "Some (fst (d_author d)) = t_user_id t"
proof -
  from assms obtain atts lks author where
    l: "collect (map (like_entry s) (filter (\<lambda>l. l_tweet_id l = t_id t) (likes s))) = Inr lks"
    and a: "find (\<lambda>u. Some (u_id u) = t_user_id t) (users s) = Some author"
    and d: "d = \<lparr>d_id = t_id t, d_content = t_content t, d_attachments = atts,
               d_author = (u_id author, u_name author), d_likes = lks\<rparr>"
    by (auto simp: make_tweet_dict_def split: sum.splits option.splits)
  from d show "d_id d = t_id t" by simp
  from collect_Inr_D[OF l] have "length (map (like_entry s) (filter (\<lambda>l. l_tweet_id l = t_id t) (likes s)))
      = length (map Inr lks :: (error + int \<times> string option) list)" by simp
  then show "length (d_likes d) = length (filter (\<lambda>l. l_tweet_id l = t_id t) (likes s))"
    using d by simp
  from a have "Some (u_id author) = t_user_id t" by (auto simp: find_Some_iff)
  then show "Some (fst (d_author d)) = t_user_id t" using d by simp
qed

lemma feed_dicts:
  assumes q: "fst (get_tweets_query user limit offset s) = Inr rows"
    and g: "fst (get_tweets user limit offset s) = Inr feed"
  shows "length feed = length rows"
    and "\<And>i. i < length rows \<Longrightarrow> make_tweet_dict s (rows ! i) = Inr (feed ! i)"
proof -
  from g q have "collect (map (make_tweet_dict s) rows) = Inr feed" by (simp add: get_tweets_fst)
  then have h: "map (make_tweet_dict s) rows = map Inr feed" by (rule collect_Inr_D)
  then show len: "length feed = length rows" by (metis length_map)
  fix i assume "i < length rows"
  then show "make_tweet_dict s (rows ! i) = Inr (feed ! i)"
    using h len by (metis nth_map)
qed

text \<open>The feed of user 1 in \<open>feed_db\<close>, evaluated.\<close>

lemmas feed_defs = get_tweets_query_def FollowerRepository_filter_def select_where_def
  following_list_def TweetRepository_filter_def order_key_def likes_count_def log_call_def
  int64_def empty_db_def user1_def user2_def user3_def Let_def

lemma feed_db_query:
  "fst (get_tweets_query user1 None None feed_db)
     = Inr [\<lparr>t_id = 5, t_user_id = Some 2, t_content = Some ''e'', t_created_at = 50\<rparr>,
            \<lparr>t_id = 1, t_user_id = Some 2, t_content = Some ''a'', t_created_at = 10\<rparr>,
            \<lparr>t_id = 4, t_user_id = Some 1, t_content = Some ''d'', t_created_at = 40\<rparr>,
            \<lparr>t_id = 2, t_user_id = Some 1, t_content = Some ''b'', t_created_at = 20\<rparr>]"
  by (simp add: feed_defs feed_db_def)

lemma feed_db_page:
  "fst (get_tweets_query user1 (Some 2) (Some 2) feed_db)
     = Inr [\<lparr>t_id = 4, t_user_id = Some 1, t_content = Some ''d'', t_created_at = 40\<rparr>,
            \<lparr>t_id = 2, t_user_id = Some 1, t_content = Some ''b'', t_created_at = 20\<rparr>]"
  by (simp add: feed_defs feed_db_def)

lemma feed_db_feed:
  "fst (get_tweets user1 None None feed_db)
     = Inr [\<lparr>d_id = 5, d_content = Some ''e'', d_attachments = [], d_author = (2, Some ''V''),
             d_likes = [(1, Some ''U''), (2, Some ''V'')]\<rparr>,
            \<lparr>d_id = 1, d_content = Some ''a'', d_attachments = [], d_author = (2, Some ''V''),
             d_likes = [(1, Some ''U''), (3, Some ''W'')]\<rparr>,
            \<lparr>d_id = 4, d_content = Some ''d'', d_attachments = [], d_author = (1, Some ''U''),
             d_likes = []\<rparr>,
            \<lparr>d_id = 2, d_content = Some ''b'', d_attachments = [], d_author = (1, Some ''U''),
             d_likes = []\<rparr>]"
  by (simp add: get_tweets_fst feed_db_query)
     (simp add: make_tweet_dict_def like_entry_def attachment_of_def feed_db_def empty_db_def
        user1_def user2_def user3_def)

lemma feed_ids:
  assumes q: "fst (get_tweets_query user limit offset s) = Inr rows"
    and g: "fst (get_tweets user limit offset s) = Inr feed"
  shows "map d_id feed = map t_id rows"
proof -
  note fd = feed_dicts[OF q g]
  have "\<And>i. i < length rows \<Longrightarrow> d_id (feed ! i) = t_id (rows ! i)"
    using make_tweet_dict_fields(1)[OF fd(2)] by simp
  with fd(1) show ?thesis by (simp add: list_eq_iff_nth_eq)
qed

subsection \<open>Pagination\<close>

text \<open>
  C4. When both a page number and a limit are supplied, \<open>get_tweets\<close> calls the
  repository with the row offset (page - 1) * limit, whatever the two numbers are. The
  call returns rows exactly when the limit and that offset are not negative and fit 64
  bits, and raises the database error otherwise. The rows returned are the first limit
  rows after skipping (page - 1) * limit rows of an ordered tweet sequence: an arrangement
  of the tweets visible to the caller, each once, sorted by like count and creation time
  descending, tweets with equal keys in the order the database gives them for this query.
  The dictionaries returned are those of these rows, in the same order. In particular
  page 2 with limit 5 returns the rows at the raw offsets 5 to 9 of such a sequence.
\<close>

theorem feed_pagination:
  "get_tweets_query user (Some limit) (Some page) s
     = TweetRepository_filter []
         [Tweets_user_id_in
            (following_list user (filter (\<lambda>f. f_follower_id f = u_id user) (followers s)))]
         [Likes_count_desc, Created_at_desc] (Some limit) (Some ((page - 1) * limit))
         (log_call Followers_filter s)
   \<and> (\<forall>rows. fst (get_tweets_query user (Some limit) (Some page) s) = Inr rows \<longrightarrow>
         (\<exists>ordered. mset ordered = mset (visible_tweets user s)
            \<and> sorted (map (feed_key s) ordered)
            \<and> rows = take (nat limit) (drop (nat ((page - 1) * limit)) ordered)))
   \<and> (\<forall>feed. fst (get_tweets user (Some limit) (Some page) s) = Inr feed \<longrightarrow>
         (\<exists>ordered. mset ordered = mset (visible_tweets user s)
            \<and> sorted (map (feed_key s) ordered)
            \<and> map d_id feed
                = map t_id (take (nat limit) (drop (nat ((page - 1) * limit)) ordered))))
   \<and> (0 \<le> limit \<and> int64 limit \<and> 0 \<le> (page - 1) * limit \<and> int64 ((page - 1) * limit) \<longrightarrow>
         (\<exists>rows. fst (get_tweets_query user (Some limit) (Some page) s) = Inr rows))
   \<and> (\<not> (0 \<le> limit \<and> int64 limit \<and> 0 \<le> (page - 1) * limit \<and> int64 ((page - 1) * limit)) \<longrightarrow>
         fst (get_tweets_query user (Some limit) (Some page) s) = Inl DBAPIError)
   \<and> (\<exists>ordered. mset ordered = mset (visible_tweets user s)
         \<and> sorted (map (feed_key s) ordered)
         \<and> fst (get_tweets_query user (Some 5) (Some 2) s) = Inr (take 5 (drop 5 ordered)))"
proof -
  let ?F = "feed_sorted user (Some limit) (Some ((page - 1) * limit)) s"
  let ?ok = "0 \<le> limit \<and> int64 limit \<and> 0 \<le> (page - 1) * limit \<and> int64 ((page - 1) * limit)"
  have a: "get_tweets_query user (Some limit) (Some page) s
     = TweetRepository_filter []
         [Tweets_user_id_in
            (following_list user (filter (\<lambda>f. f_follower_id f = u_id user) (followers s)))]
         [Likes_count_desc, Created_at_desc] (Some limit) (Some ((page - 1) * limit))
         (log_call Followers_filter s)"
    by (simp add: get_tweets_query_call)
  have F: "mset ?F = mset (visible_tweets user s)" "sorted (map (feed_key s) ?F)"
    by (rule feed_sorted_mset, rule feed_sorted_sorted)
  have r: "rows = take (nat limit) (drop (nat ((page - 1) * limit)) ?F)"
    if q: "fst (get_tweets_query user (Some limit) (Some page) s) = Inr rows" for rows
    using q unfolding query_page by (simp split: if_splits)
  have b: "\<exists>ordered. mset ordered = mset (visible_tweets user s)
            \<and> sorted (map (feed_key s) ordered)
            \<and> rows = take (nat limit) (drop (nat ((page - 1) * limit)) ordered)"
    if q: "fst (get_tweets_query user (Some limit) (Some page) s) = Inr rows" for rows
    using r[OF q] F by blast
  have c: "\<exists>ordered. mset ordered = mset (visible_tweets user s)
            \<and> sorted (map (feed_key s) ordered)
            \<and> map d_id feed
                = map t_id (take (nat limit) (drop (nat ((page - 1) * limit)) ordered))"
    if g: "fst (get_tweets user (Some limit) (Some page) s) = Inr feed" for feed
  proof -
    from g obtain rows where q: "fst (get_tweets_query user (Some limit) (Some page) s) = Inr rows"
      by (cases "fst (get_tweets_query user (Some limit) (Some page) s)")
         (simp_all add: get_tweets_fst)
    from feed_ids[OF q g] r[OF q]
    have "map d_id feed = map t_id (take (nat limit) (drop (nat ((page - 1) * limit)) ?F))"
      by simp
    with F show ?thesis by blast
  qed
  have d: "?ok \<longrightarrow> (\<exists>rows. fst (get_tweets_query user (Some limit) (Some page) s) = Inr rows)"
    unfolding query_page by simp
  have e: "\<not> ?ok \<longrightarrow> fst (get_tweets_query user (Some limit) (Some page) s) = Inl DBAPIError"
    unfolding query_page by simp
  let ?G = "feed_sorted user (Some 5) (Some 5) s"
  have "fst (get_tweets_query user (Some 5) (Some 2) s) = Inr (take 5 (drop 5 ?G))"
    unfolding query_page by (simp add: int64_def)
  moreover have "mset ?G = mset (visible_tweets user s)" "sorted (map (feed_key s) ?G)"
    by (rule feed_sorted_mset, rule feed_sorted_sorted)
  ultimately have f: "\<exists>ordered. mset ordered = mset (visible_tweets user s)
         \<and> sorted (map (feed_key s) ordered)
         \<and> fst (get_tweets_query user (Some 5) (Some 2) s) = Inr (take 5 (drop 5 ordered))"
    by blast
  from b have b': "\<forall>rows. fst (get_tweets_query user (Some limit) (Some page) s) = Inr rows \<longrightarrow>
         (\<exists>ordered. mset ordered = mset (visible_tweets user s)
            \<and> sorted (map (feed_key s) ordered)
            \<and> rows = take (nat limit) (drop (nat ((page - 1) * limit)) ordered))"
    by (intro allI impI)
  from c have c': "\<forall>feed. fst (get_tweets user (Some limit) (Some page) s) = Inr feed \<longrightarrow>
         (\<exists>ordered. mset ordered = mset (visible_tweets user s)
            \<and> sorted (map (feed_key s) ordered)
            \<and> map d_id feed
                = map t_id (take (nat limit) (drop (nat ((page - 1) * limit)) ordered)))"
    by (intro allI impI)
  from a b' c' d e f show ?thesis by (intro conjI)
qed

theorem feed_pagination_witness:
  "fst (get_tweets_query user1 (Some 2) (Some 2) feed_db)
     = Inr [\<lparr>t_id = 4, t_user_id = Some 1, t_content = Some ''d'', t_created_at = 40\<rparr>,
            \<lparr>t_id = 2, t_user_id = Some 1, t_content = Some ''b'', t_created_at = 20\<rparr>]
   \<and> (\<exists>ordered. mset ordered = mset (visible_tweets user1 feed_db)
         \<and> sorted (map (feed_key feed_db) ordered)
         \<and> [\<lparr>t_id = 4, t_user_id = Some 1, t_content = Some ''d'', t_created_at = 40\<rparr>,
             \<lparr>t_id = 2, t_user_id = Some 1, t_content = Some ''b'', t_created_at = 20\<rparr>]
             = take 2 (drop 2 ordered))"
  using feed_pagination [of user1 2 2 feed_db, THEN conjunct2, THEN conjunct1] feed_db_page
  by simp

subsection \<open>Visible authors\<close>

text \<open>
  C6. \<open>get_tweets\<close> queries the tweets whose author is in the following list: the
  caller alone when no Follow edge has the caller as follower, and otherwise the
  followees of those edges followed by the caller. Every row the query returns, and
  every dictionary of the feed, is authored by the caller or by a user the caller
  follows; so a user who is neither contributes nothing.
\<close>

theorem visible_author_set:
  "get_tweets_query user limit offset s
     = TweetRepository_filter []
         [Tweets_user_id_in
            (if filter (\<lambda>f. f_follower_id f = u_id user) (followers s) = [] then [u_id user]
             else map f_followee_id (filter (\<lambda>f. f_follower_id f = u_id user) (followers s))
                  @ [u_id user])]
         [Likes_count_desc, Created_at_desc] limit
         (case (offset, limit) of (Some off, Some lim) \<Rightarrow> Some ((off - 1) * lim) | _ \<Rightarrow> offset)
         (log_call Followers_filter s)
   \<and> (\<forall>rows. fst (get_tweets_query user limit offset s) = Inr rows \<longrightarrow>
         (\<forall>t \<in> set rows.
            t_user_id t = Some (u_id user)
            \<or> (\<exists>f \<in> set (followers s).
                  f_follower_id f = u_id user \<and> t_user_id t = Some (f_followee_id f))))
   \<and> (\<forall>feed. fst (get_tweets user limit offset s) = Inr feed \<longrightarrow>
         (\<forall>d \<in> set feed.
            fst (d_author d) = u_id user
            \<or> (\<exists>f \<in> set (followers s).
                  f_follower_id f = u_id user \<and> fst (d_author d) = f_followee_id f)))"
proof -
  have a: "get_tweets_query user limit offset s
     = TweetRepository_filter []
         [Tweets_user_id_in
            (if filter (\<lambda>f. f_follower_id f = u_id user) (followers s) = [] then [u_id user]
             else map f_followee_id (filter (\<lambda>f. f_follower_id f = u_id user) (followers s))
                  @ [u_id user])]
         [Likes_count_desc, Created_at_desc] limit
         (case (offset, limit) of (Some off, Some lim) \<Rightarrow> Some ((off - 1) * lim) | _ \<Rightarrow> offset)
         (log_call Followers_filter s)"
    unfolding get_tweets_query_call following_list_def ..
  have b: "t_user_id t = Some (u_id user)
            \<or> (\<exists>f \<in> set (followers s).
                  f_follower_id f = u_id user \<and> t_user_id t = Some (f_followee_id f))"
    if q: "fst (get_tweets_query user limit offset s) = Inr rows" and t: "t \<in> set rows" for rows t
    using rows_subset[OF q] t feed_sorted_visible[of t user limit _ s] by blast
  have c: "fst (d_author d) = u_id user
            \<or> (\<exists>f \<in> set (followers s).
                  f_follower_id f = u_id user \<and> fst (d_author d) = f_followee_id f)"
    if g: "fst (get_tweets user limit offset s) = Inr feed" and d: "d \<in> set feed" for feed d
  proof -
    from g obtain rows where q: "fst (get_tweets_query user limit offset s) = Inr rows"
      by (cases "fst (get_tweets_query user limit offset s)") (simp_all add: get_tweets_fst)
    note fd = feed_dicts[OF q g]
    from d obtain i where i: "i < length feed" "feed ! i = d" by (auto simp: in_set_conv_nth)
    with fd have m: "make_tweet_dict s (rows ! i) = Inr d" and ri: "rows ! i \<in> set rows" by auto
    from make_tweet_dict_fields(3)[OF m] b[OF q ri] show ?thesis by auto
  qed
  from a b c show ?thesis by blast
qed

theorem visible_author_set_witness:
  "fst (get_tweets_query user1 None None feed_db)
     = Inr [\<lparr>t_id = 5, t_user_id = Some 2, t_content = Some ''e'', t_created_at = 50\<rparr>,
            \<lparr>t_id = 1, t_user_id = Some 2, t_content = Some ''a'', t_created_at = 10\<rparr>,
            \<lparr>t_id = 4, t_user_id = Some 1, t_content = Some ''d'', t_created_at = 40\<rparr>,
            \<lparr>t_id = 2, t_user_id = Some 1, t_content = Some ''b'', t_created_at = 20\<rparr>]
   \<and> \<lparr>t_id = 3, t_user_id = Some 3, t_content = Some ''c'', t_created_at = 30\<rparr>
        \<in> set (tweets feed_db)
   \<and> 3 \<notin> (\<lambda>d. fst (d_author d)) `
           set [\<lparr>d_id = 5, d_content = Some ''e'', d_attachments = [],
                 d_author = (2, Some ''V''), d_likes = [(1, Some ''U''), (2, Some ''V'')]\<rparr>,
                \<lparr>d_id = 1, d_content = Some ''a'', d_attachments = [],
                 d_author = (2, Some ''V''), d_likes = [(1, Some ''U''), (3, Some ''W'')]\<rparr>,
                \<lparr>d_id = 4, d_content = Some ''d'', d_attachments = [],
                 d_author = (1, Some ''U''), d_likes = []\<rparr>,
                \<lparr>d_id = 2, d_content = Some ''b'', d_attachments = [],
                 d_author = (1, Some ''U''), d_likes = []\<rparr>]"
  using visible_author_set [of user1 None None feed_db, THEN conjunct2] feed_db_query feed_db_feed
  by (simp add: feed_db_def empty_db_def user1_def)

subsection \<open>Ordering\<close>

lemma precedes_sorted:
  "sorted (map f xs) \<Longrightarrow> precedes xs a b \<Longrightarrow> f a \<le> f b"
  by (induction xs) auto

lemma precedes_total:
  "a \<in> set xs \<Longrightarrow> b \<in> set xs \<Longrightarrow> a \<noteq> b \<Longrightarrow> precedes xs a b \<or> precedes xs b a"
  by (induction xs) auto

lemma rows_sorted:
  assumes "fst (get_tweets_query user limit offset s) = Inr rows"
  shows "sorted (map (\<lambda>t. [- likes_count s t, - t_created_at t]) rows)"
proof -
  let ?k = "\<lambda>t. [- likes_count s t, - t_created_at t]"
  from query_rows_sublist[OF assms] obtain n m F where r: "rows = take n (drop m F)"
    and F: "sorted (map (feed_key s) F)"
    using feed_sorted_sorted by blast
  have k: "feed_key s = ?k" by (simp add: feed_key_def fun_eq_iff)
  from F have "sorted (take n (drop m (map ?k F)))"
    unfolding k by (intro sorted_wrt_take sorted_wrt_drop)
  then show ?thesis unfolding r by (simp add: take_map drop_map)
qed

lemma key_le:
  "[- likes_count s a, - t_created_at a] \<le> [- likes_count s b, - t_created_at b] \<longleftrightarrow>
     likes_count s b < likes_count s a
     \<or> (likes_count s a = likes_count s b \<and> t_created_at b \<le> t_created_at a)"
  by auto

lemma key_less:
  "[- likes_count s a, - t_created_at a] < [- likes_count s b, - t_created_at b] \<longleftrightarrow>
     likes_count s b < likes_count s a
     \<or> (likes_count s a = likes_count s b \<and> t_created_at b < t_created_at a)"
  by auto

lemma likes_count_cmp:
  "likes_count s b < likes_count s a \<longleftrightarrow>
     length (filter (\<lambda>l. l_tweet_id l = t_id b) (likes s))
       < length (filter (\<lambda>l. l_tweet_id l = t_id a) (likes s))"
  "likes_count s a = likes_count s b \<longleftrightarrow>
     length (filter (\<lambda>l. l_tweet_id l = t_id a) (likes s))
       = length (filter (\<lambda>l. l_tweet_id l = t_id b) (likes s))"
  by (simp_all add: likes_count_def)

text \<open>
  C5, as stated, fails on ties. In \<open>tie_db\<close> the two tweets of the feed have the same
  like count and the same creation time: one of them comes first, although neither has
  more likes nor, at equal likes, a later creation time. (Whatever order the database
  picks for such a pair, the equivalence fails for the tweet it puts first.)
\<close>

theorem equal_keys_counterexample:
  "fst (get_tweets_query user1 None None tie_db)
     = Inr [\<lparr>t_id = 1, t_user_id = Some 1, t_content = Some ''a'', t_created_at = 10\<rparr>,
            \<lparr>t_id = 2, t_user_id = Some 1, t_content = Some ''b'', t_created_at = 10\<rparr>]
   \<and> precedes [\<lparr>t_id = 1, t_user_id = Some 1, t_content = Some ''a'', t_created_at = 10\<rparr>,
               \<lparr>t_id = 2, t_user_id = Some 1, t_content = Some ''b'', t_created_at = 10\<rparr>]
        \<lparr>t_id = 1, t_user_id = Some 1, t_content = Some ''a'', t_created_at = 10\<rparr>
        \<lparr>t_id = 2, t_user_id = Some 1, t_content = Some ''b'', t_created_at = 10\<rparr>
   \<and> \<not> (likes_count tie_db \<lparr>t_id = 1, t_user_id = Some 1, t_content = Some ''a'', t_created_at = 10\<rparr>
          > likes_count tie_db \<lparr>t_id = 2, t_user_id = Some 1, t_content = Some ''b'', t_created_at = 10\<rparr>
        \<or> (likes_count tie_db \<lparr>t_id = 1, t_user_id = Some 1, t_content = Some ''a'', t_created_at = 10\<rparr>
            = likes_count tie_db \<lparr>t_id = 2, t_user_id = Some 1, t_content = Some ''b'', t_created_at = 10\<rparr>
            \<and> t_created_at \<lparr>t_id = 1, t_user_id = Some 1, t_content = Some ''a'', t_created_at = 10\<rparr>
              > t_created_at \<lparr>t_id = 2, t_user_id = Some 1, t_content = Some ''b'', t_created_at = 10\<rparr>))"
  by (simp add: feed_defs tie_db_def)

text \<open>
  C5, amended. In the rows \<open>get_tweets\<close> queries, whenever A precedes B, A has more
  likes than B, or as many and a creation time not earlier than B's; and whenever A has
  more likes than B, or as many and a strictly later creation time, A precedes B and B
  does not precede A. The like count is the number of Like rows of the tweet in the
  state the query runs on, and it is the length of the \<open>likes\<close> list of the tweet's
  dictionary in the feed.
\<close>

theorem feed_ordering:
  "\<forall>rows. fst (get_tweets_query user limit offset s) = Inr rows \<longrightarrow>
     (\<forall>a b. precedes rows a b \<longrightarrow>
        length (filter (\<lambda>l. l_tweet_id l = t_id b) (likes s))
          < length (filter (\<lambda>l. l_tweet_id l = t_id a) (likes s))
        \<or> (length (filter (\<lambda>l. l_tweet_id l = t_id a) (likes s))
              = length (filter (\<lambda>l. l_tweet_id l = t_id b) (likes s))
            \<and> t_created_at b \<le> t_created_at a))
   \<and> (\<forall>a \<in> set rows. \<forall>b \<in> set rows.
        (length (filter (\<lambda>l. l_tweet_id l = t_id b) (likes s))
           < length (filter (\<lambda>l. l_tweet_id l = t_id a) (likes s))
         \<or> (length (filter (\<lambda>l. l_tweet_id l = t_id a) (likes s))
               = length (filter (\<lambda>l. l_tweet_id l = t_id b) (likes s))
             \<and> t_created_at b < t_created_at a))
        \<longrightarrow> precedes rows a b \<and> \<not> precedes rows b a)
   \<and> (\<forall>feed. fst (get_tweets user limit offset s) = Inr feed \<longrightarrow>
        map d_id feed = map t_id rows
        \<and> map (\<lambda>d. length (d_likes d)) feed
            = map (\<lambda>t. length (filter (\<lambda>l. l_tweet_id l = t_id t) (likes s))) rows)"
proof (intro allI impI)
  fix rows assume q: "fst (get_tweets_query user limit offset s) = Inr rows"
  let ?k = "\<lambda>t. [- likes_count s t, - t_created_at t]"
  note srt = rows_sorted[OF q]
  have p1: "\<forall>a b. precedes rows a b \<longrightarrow>
        length (filter (\<lambda>l. l_tweet_id l = t_id b) (likes s))
          < length (filter (\<lambda>l. l_tweet_id l = t_id a) (likes s))
        \<or> (length (filter (\<lambda>l. l_tweet_id l = t_id a) (likes s))
              = length (filter (\<lambda>l. l_tweet_id l = t_id b) (likes s))
            \<and> t_created_at b \<le> t_created_at a)"
  proof (intro allI impI)
    fix a b assume "precedes rows a b"
    from precedes_sorted[OF srt this] show "length (filter (\<lambda>l. l_tweet_id l = t_id b) (likes s))
          < length (filter (\<lambda>l. l_tweet_id l = t_id a) (likes s))
        \<or> (length (filter (\<lambda>l. l_tweet_id l = t_id a) (likes s))
              = length (filter (\<lambda>l. l_tweet_id l = t_id b) (likes s))
            \<and> t_created_at b \<le> t_created_at a)"
      unfolding key_le likes_count_cmp .
  qed
  have p2: "\<forall>a \<in> set rows. \<forall>b \<in> set rows.
        (length (filter (\<lambda>l. l_tweet_id l = t_id b) (likes s))
           < length (filter (\<lambda>l. l_tweet_id l = t_id a) (likes s))
         \<or> (length (filter (\<lambda>l. l_tweet_id l = t_id a) (likes s))
               = length (filter (\<lambda>l. l_tweet_id l = t_id b) (likes s))
             \<and> t_created_at b < t_created_at a))
        \<longrightarrow> precedes rows a b \<and> \<not> precedes rows b a"
  proof (intro ballI impI)
    fix a b assume a: "a \<in> set rows" and b: "b \<in> set rows"
      and c: "length (filter (\<lambda>l. l_tweet_id l = t_id b) (likes s))
           < length (filter (\<lambda>l. l_tweet_id l = t_id a) (likes s))
         \<or> (length (filter (\<lambda>l. l_tweet_id l = t_id a) (likes s))
               = length (filter (\<lambda>l. l_tweet_id l = t_id b) (likes s))
             \<and> t_created_at b < t_created_at a)"
    from c have lt: "?k a < ?k b" unfolding key_less likes_count_cmp .
    then have ne: "a \<noteq> b" by auto
    have nb: "\<not> precedes rows b a"
    proof
      assume "precedes rows b a"
      from precedes_sorted[OF srt this] have "?k b \<le> ?k a" .
      then have "\<not> ?k a < ?k b" by (rule leD)
      with lt show False by contradiction
    qed
    with precedes_total[OF a b ne] show "precedes rows a b \<and> \<not> precedes rows b a" by simp
  qed
  have p3: "\<forall>feed. fst (get_tweets user limit offset s) = Inr feed \<longrightarrow>
        map d_id feed = map t_id rows
        \<and> map (\<lambda>d. length (d_likes d)) feed
            = map (\<lambda>t. length (filter (\<lambda>l. l_tweet_id l = t_id t) (likes s))) rows"
  proof (intro allI impI)
    fix feed assume g: "fst (get_tweets user limit offset s) = Inr feed"
    note fd = feed_dicts[OF q g]
    have "\<And>i. i < length rows \<Longrightarrow> d_id (feed ! i) = t_id (rows ! i)
        \<and> length (d_likes (feed ! i))
            = length (filter (\<lambda>l. l_tweet_id l = t_id (rows ! i)) (likes s))"
      using make_tweet_dict_fields(1,2)[OF fd(2)] by simp
    with fd(1) show "map d_id feed = map t_id rows
        \<and> map (\<lambda>d. length (d_likes d)) feed
            = map (\<lambda>t. length (filter (\<lambda>l. l_tweet_id l = t_id t) (likes s))) rows"
      by (simp add: list_eq_iff_nth_eq)
  qed
  from p1 p2 p3 show "(\<forall>a b. precedes rows a b \<longrightarrow>
        length (filter (\<lambda>l. l_tweet_id l = t_id b) (likes s))
          < length (filter (\<lambda>l. l_tweet_id l = t_id a) (likes s))
        \<or> (length (filter (\<lambda>l. l_tweet_id l = t_id a) (likes s))
              = length (filter (\<lambda>l. l_tweet_id l = t_id b) (likes s))
            \<and> t_created_at b \<le> t_created_at a))
   \<and> (\<forall>a \<in> set rows. \<forall>b \<in> set rows.
        (length (filter (\<lambda>l. l_tweet_id l = t_id b) (likes s))
           < length (filter (\<lambda>l. l_tweet_id l = t_id a) (likes s))
         \<or> (length (filter (\<lambda>l. l_tweet_id l = t_id a) (likes s))
               = length (filter (\<lambda>l. l_tweet_id l = t_id b) (likes s))
             \<and> t_created_at b < t_created_at a))
        \<longrightarrow> precedes rows a b \<and> \<not> precedes rows b a)
   \<and> (\<forall>feed. fst (get_tweets user limit offset s) = Inr feed \<longrightarrow>
        map d_id feed = map t_id rows
        \<and> map (\<lambda>d. length (d_likes d)) feed
            = map (\<lambda>t. length (filter (\<lambda>l. l_tweet_id l = t_id t) (likes s))) rows)"
    by (intro conjI)
qed

theorem feed_ordering_witness:
  "precedes [\<lparr>t_id = 5, t_user_id = Some 2, t_content = Some ''e'', t_created_at = 50\<rparr>,
            \<lparr>t_id = 1, t_user_id = Some 2, t_content = Some ''a'', t_created_at = 10\<rparr>,
            \<lparr>t_id = 4, t_user_id = Some 1, t_content = Some ''d'', t_created_at = 40\<rparr>,
            \<lparr>t_id = 2, t_user_id = Some 1, t_content = Some ''b'', t_created_at = 20\<rparr>]
     \<lparr>t_id = 1, t_user_id = Some 2, t_content = Some ''a'', t_created_at = 10\<rparr>
     \<lparr>t_id = 4, t_user_id = Some 1, t_content = Some ''d'', t_created_at = 40\<rparr>
   \<and> length (filter (\<lambda>l. l_tweet_id l = 4) (likes feed_db))
       < length (filter (\<lambda>l. l_tweet_id l = 1) (likes feed_db))
   \<and> map d_id [\<lparr>d_id = 5, d_content = Some ''e'', d_attachments = [], d_author = (2, Some ''V''),
                 d_likes = [(1, Some ''U''), (2, Some ''V'')]\<rparr>,
                \<lparr>d_id = 1, d_content = Some ''a'', d_attachments = [], d_author = (2, Some ''V''),
                 d_likes = [(1, Some ''U''), (3, Some ''W'')]\<rparr>,
                \<lparr>d_id = 4, d_content = Some ''d'', d_attachments = [], d_author = (1, Some ''U''),
                 d_likes = []\<rparr>,
                \<lparr>d_id = 2, d_content = Some ''b'', d_attachments = [], d_author = (1, Some ''U''),
                 d_likes = []\<rparr>] = [5, 1, 4, 2]"
  using feed_ordering [of user1 None None feed_db] feed_db_query feed_db_feed
  by (simp add: feed_db_def empty_db_def)

end
